theory Spec2Isabelle
  imports Main "HOL-Library.Word" "HOL-Library.Multiset"
begin

unbundle bit_operations_syntax

section \<open>Data model (mb\_types.h, mb\_error.h)\<close>

text \<open>
  The C integer types are words of the same width.  Where the C code computes in
  \<open>int\<close> or \<open>uint32_t\<close> after integer promotion and the value cannot leave that
  range, the model computes in \<open>nat\<close> or \<open>int\<close>; every narrowing cast of the source
  is an \<open>of_nat\<close> or \<open>word_of_int\<close> into the narrower word.
\<close>

type_synonym uint8 = "8 word"
type_synonym uint16 = "16 word"
type_synonym uint32 = "32 word"

datatype mb_mode = MB_MODE_RTU | MB_MODE_ASCII | MB_MODE_TCP

datatype mb_error =
    MB_ERROR_INVALID_PARAM
  | MB_ERROR_BUFFER_TOO_SMALL
  | MB_ERROR_TIMEOUT
  | MB_ERROR_CRC_MISMATCH
  | MB_ERROR_LRC_MISMATCH
  | MB_ERROR_INVALID_FRAME
  | MB_ERROR_EXCEPTION_RESPONSE
  | MB_ERROR_TRANSPORT
  | MB_ERROR_OUT_OF_MEMORY
  | MB_ERROR_NOT_SUPPORTED
  | MB_ERROR_INVALID_FC
  | MB_ERROR_INVALID_ADDRESS
  | MB_ERROR_INVALID_QUANTITY
  | MB_ERROR_NO_BLOCKS
  | MB_ERROR_TOO_MANY_BLOCKS
  | MB_ERROR_PDU_TOO_LARGE
  | MB_ERROR_TOO_MANY_PLANS
  | MB_ERROR_NO_MEMORY

text \<open>\<open>mb_block_t\<close>.\<close>

record mb_block =
  slave_id :: uint8
  function_code :: uint8
  start_address :: uint16
  quantity :: uint16
  is_merged :: bool

text \<open>\<open>mb_pdu_t\<close>; the fields carry the prefix \<open>pdu_\<close> to keep them apart from the
  block's.\<close>

record mb_pdu =
  pdu_slave_id :: uint8
  pdu_function_code :: uint8
  pdu_start_address :: uint16
  pdu_quantity :: uint16
  pdu_total_chars :: uint16

text \<open>\<open>mb_cost_params_t\<close>, fields prefixed \<open>cp_\<close>.\<close>

record mb_cost_params =
  cp_req_fixed_chars :: uint8
  cp_resp_fixed_chars :: uint8
  cp_gap_chars :: uint8
  cp_latency_chars :: uint8

text \<open>\<open>mb_fc_policy_t\<close>.\<close>

record mb_fc_policy =
  fc :: uint8
  supports_merge :: bool
  is_read :: bool
  req_fixed_chars :: uint8
  resp_fixed_chars :: uint8
  extra_unit_chars :: uint16
  max_quantity :: uint16

section \<open>Function-code policy (fc\_policy.c)\<close>

definition fc_policy_table :: "mb_fc_policy list" where
  "fc_policy_table =
   [\<lparr>fc = 0x01, supports_merge = True, is_read = True, req_fixed_chars = 6,
     resp_fixed_chars = 5, extra_unit_chars = 12, max_quantity = 2000\<rparr>,
    \<lparr>fc = 0x02, supports_merge = True, is_read = True, req_fixed_chars = 6,
     resp_fixed_chars = 5, extra_unit_chars = 12, max_quantity = 2000\<rparr>,
    \<lparr>fc = 0x03, supports_merge = True, is_read = True, req_fixed_chars = 6,
     resp_fixed_chars = 5, extra_unit_chars = 200, max_quantity = 125\<rparr>,
    \<lparr>fc = 0x04, supports_merge = True, is_read = True, req_fixed_chars = 6,
     resp_fixed_chars = 5, extra_unit_chars = 200, max_quantity = 125\<rparr>,
    \<lparr>fc = 0x05, supports_merge = False, is_read = False, req_fixed_chars = 6,
     resp_fixed_chars = 6, extra_unit_chars = 0, max_quantity = 1\<rparr>,
    \<lparr>fc = 0x06, supports_merge = False, is_read = False, req_fixed_chars = 6,
     resp_fixed_chars = 6, extra_unit_chars = 0, max_quantity = 1\<rparr>,
    \<lparr>fc = 0x0F, supports_merge = False, is_read = False, req_fixed_chars = 7,
     resp_fixed_chars = 6, extra_unit_chars = 0, max_quantity = 1968\<rparr>,
    \<lparr>fc = 0x10, supports_merge = False, is_read = False, req_fixed_chars = 7,
     resp_fixed_chars = 6, extra_unit_chars = 0, max_quantity = 123\<rparr>,
    \<lparr>fc = 0x16, supports_merge = False, is_read = False, req_fixed_chars = 8,
     resp_fixed_chars = 8, extra_unit_chars = 0, max_quantity = 1\<rparr>,
    \<lparr>fc = 0x17, supports_merge = False, is_read = True, req_fixed_chars = 11,
     resp_fixed_chars = 5, extra_unit_chars = 0, max_quantity = 121\<rparr>]"

text \<open>The linear search of \<open>mb_fc_get_policy\<close>; \<open>None\<close> is the \<open>NULL\<close> result.\<close>

definition mb_fc_get_policy :: "uint8 \<Rightarrow> mb_fc_policy option" where
  "mb_fc_get_policy c = find (\<lambda>p. fc p = c) fc_policy_table"

definition mb_fc_supports_merge :: "uint8 \<Rightarrow> bool" where
  "mb_fc_supports_merge c =
     (case mb_fc_get_policy c of None \<Rightarrow> False | Some p \<Rightarrow> supports_merge p)"

definition mb_fc_get_unit_size :: "uint8 \<Rightarrow> uint8" where
  "mb_fc_get_unit_size c =
     (if c = 0x01 \<or> c = 0x02 \<or> c = 0x05 \<or> c = 0x0F then 1
      else if c = 0x03 \<or> c = 0x04 \<or> c = 0x06 \<or> c = 0x10 \<or> c = 0x16 \<or> c = 0x17 then 2
      else 0)"

definition mb_fc_get_extra_unit_chars :: "uint8 \<Rightarrow> uint16" where
  "mb_fc_get_extra_unit_chars c =
     (case mb_fc_get_policy c of None \<Rightarrow> 0 | Some p \<Rightarrow> extra_unit_chars p)"

definition mb_fc_get_max_quantity :: "uint8 \<Rightarrow> uint16" where
  "mb_fc_get_max_quantity c =
     (case mb_fc_get_policy c of None \<Rightarrow> 0 | Some p \<Rightarrow> max_quantity p)"

definition mb_fc_is_valid :: "uint8 \<Rightarrow> bool" where
  "mb_fc_is_valid c = (mb_fc_get_policy c \<noteq> None)"

section \<open>Block utilities (block\_utils.c)\<close>

text \<open>
  The functions take pointers in C and answer \<open>false\<close>, \<open>0\<close> or
  \<open>MB_ERROR_INVALID_PARAM\<close> on \<open>NULL\<close>.  The model passes the structures by value, so
  it covers the calls with valid pointers.
\<close>

definition mb_block_are_compatible :: "mb_block \<Rightarrow> mb_block \<Rightarrow> bool" where
  "mb_block_are_compatible a b =
     (slave_id a = slave_id b \<and> function_code a = function_code b)"

text \<open>\<open>a_end\<close> is a \<open>uint32_t\<close> sum of two 16-bit values, which cannot wrap.\<close>

definition block_end :: "mb_block \<Rightarrow> nat" where
  "block_end a = unat (start_address a) + unat (quantity a)"

definition mb_block_are_adjacent :: "mb_block \<Rightarrow> mb_block \<Rightarrow> bool" where
  "mb_block_are_adjacent a b =
     (if \<not> mb_block_are_compatible a b then False
      else block_end a = unat (start_address b))"

definition mb_block_calc_gap :: "mb_block \<Rightarrow> mb_block \<Rightarrow> uint16" where
  "mb_block_calc_gap a0 b0 =
     (let (a, b) = (if start_address a0 > start_address b0 then (b0, a0) else (a0, b0));
          a_end = block_end a
      in if a_end \<ge> unat (start_address b) then 0
         else of_nat (unat (start_address b) - a_end))"

definition mb_block_merge :: "mb_block \<Rightarrow> mb_block \<Rightarrow> mb_error + mb_block" where
  "mb_block_merge a0 b0 =
     (if \<not> mb_block_are_compatible a0 b0 then Inl MB_ERROR_INVALID_PARAM
      else
        let (a, b) = (if start_address a0 > start_address b0 then (b0, a0) else (a0, b0));
            a_end = block_end a;
            b_end = block_end b;
            end = (if a_end > b_end then a_end else b_end)
        in Inr \<lparr>slave_id = slave_id a,
                function_code = function_code a,
                start_address = start_address a,
                quantity = of_nat (end - unat (start_address a)),
                is_merged = True\<rparr>)"

definition mb_block_calc_data_size :: "mb_block \<Rightarrow> uint16" where
  "mb_block_calc_data_size block =
     (let unit_size = mb_fc_get_unit_size (function_code block)
      in if unit_size = 1 then of_nat ((unat (quantity block) + 7) div 8)
         else if unit_size = 2 then of_nat (unat (quantity block) * 2)
         else 0)"

section \<open>Character cost model (char\_model.c)\<close>

text \<open>
  \<open>mb_calc_gap_cost\<close> first computes \<open>gap_units * extra_unit_chars / 100\<close> and then
  overwrites that value in both branches; only the overwriting assignments reach the
  result.  The products are computed in \<open>int\<close> and the result is cast to
  \<open>uint16_t\<close>.
\<close>

definition mb_calc_gap_cost :: "uint8 \<Rightarrow> uint16 \<Rightarrow> uint16" where
  "mb_calc_gap_cost c gap_units =
     (if gap_units = 0 then 0
      else if c = 0x01 \<or> c = 0x02 then of_nat ((unat gap_units + 7) div 8)
      else of_nat (unat gap_units * 2))"

text \<open>
  \<open>overhead_cost\<close> is the \<open>int\<close> sum of four bytes stored in a \<open>uint16_t\<close>.  The
  result \<open>(int16_t)(overhead_cost - gap_cost)\<close> is the difference taken in \<open>int\<close>
  and narrowed to 16 bits, read as two's complement.
\<close>

definition overhead_cost :: "mb_cost_params \<Rightarrow> uint16" where
  "overhead_cost cp =
     of_nat (unat (cp_req_fixed_chars cp) + unat (cp_resp_fixed_chars cp)
             + unat (cp_gap_chars cp) + unat (cp_latency_chars cp))"

definition mb_calc_merge_savings :: "uint16 \<Rightarrow> uint8 \<Rightarrow> mb_cost_params \<Rightarrow> int" where
  "mb_calc_merge_savings gap_units c cp =
     sint (word_of_int (uint (overhead_cost cp) - uint (mb_calc_gap_cost c gap_units))
           :: uint16)"

section \<open>Gap-aware merge (gap\_merge.c)\<close>

definition mb_should_merge_blocks :: "mb_block \<Rightarrow> mb_block \<Rightarrow> mb_cost_params \<Rightarrow> bool" where
  "mb_should_merge_blocks block_a block_b cost_params =
     (if \<not> mb_block_are_compatible block_a block_b then False
      else if \<not> mb_fc_supports_merge (function_code block_a) then False
      else if mb_block_are_adjacent block_a block_b then True
      else
        let gap_units = mb_block_calc_gap block_a block_b
        in if gap_units = 0 then True
           else mb_calc_merge_savings gap_units (function_code block_a) cost_params > 0)"

section \<open>Response parser (response\_parser.c)\<close>

text \<open>\<open>((uint16_t)hi << 8) | lo\<close>.\<close>

definition be16 :: "uint8 \<Rightarrow> uint8 \<Rightarrow> uint16" where
  "be16 hi lo = push_bit 8 (ucast hi) OR ucast lo"








section \<open>Checksums (lrc.c, crc16.h)\<close>

text \<open>
  \<open>mb_lrc\<close>: the 8-bit sum of the bytes, negated; \<open>(uint8_t)(-((int8_t)lrc))\<close> is the
  two's complement of the byte.  An empty buffer gives 0.
\<close>

definition mb_lrc :: "uint8 list \<Rightarrow> uint8" where
  "mb_lrc data = (if length data = 0 then 0 else - foldl (+) 0 data)"

text \<open>\<open>mb_lrc_verify\<close>: the LRC of all bytes but the last, compared with the last.\<close>

definition mb_lrc_verify :: "uint8 list \<Rightarrow> bool" where
  "mb_lrc_verify frame =
     (if length frame < 2 then False
      else
        let calculated_lrc = mb_lrc (take (length frame - 1) frame);
            frame_lrc = frame ! (length frame - 1)
        in calculated_lrc = frame_lrc)"

text \<open>
  Modelled from the spec: \<open>crc16.c\<close>, the file that defines \<open>mb_crc16\<close> and
  \<open>mb_crc16_verify\<close>, is missing; the sources hold only the declarations in
  \<open>crc16.h\<close> and the tests in \<open>test_crc16.c\<close>.  The spec gives CRC-16/Modbus:
  reflected polynomial \<open>0xA001\<close>, initial value \<open>0xFFFF\<close>, no final XOR, reflected
  input and output.  \<open>crc16_shift n\<close> shifts the register right by one bit \<open>n\<close>
  times and applies the polynomial whenever a one is shifted out.
\<close>

fun crc16_shift :: "nat \<Rightarrow> uint16 \<Rightarrow> uint16" where
  "crc16_shift 0 crc = crc"
| "crc16_shift (Suc n) crc =
     crc16_shift n (if crc AND 1 \<noteq> 0 then drop_bit 1 crc XOR 0xA001 else drop_bit 1 crc)"

text \<open>Modelled from the spec: one byte of the missing \<open>mb_crc16\<close> is taken into the
  low half of the register and followed by eight shifts.\<close>

definition crc16_update :: "uint16 \<Rightarrow> uint8 \<Rightarrow> uint16" where
  "crc16_update crc b = crc16_shift 8 (crc XOR ucast b)"

text \<open>Modelled from the spec: the missing \<open>mb_crc16\<close> starts from \<open>0xFFFF\<close>, so
  \<open>crc(empty) = 0xFFFF\<close>, and has no final XOR.\<close>

definition mb_crc16 :: "uint8 list \<Rightarrow> uint16" where
  "mb_crc16 data = foldl crc16_update 0xFFFF data"

text \<open>
  Modelled from the spec: the missing \<open>mb_crc16_verify\<close> "re-computes over all but
  the last two bytes and matches them as (low, high)".  The test
  \<open>test_crc16_verify_too_short\<close> rejects a one-byte frame; the model rejects every
  frame without a data byte before the two CRC bytes.
\<close>

definition mb_crc16_verify :: "uint8 list \<Rightarrow> bool" where
  "mb_crc16_verify frame =
     (if length frame < 3 then False
      else
        let n = length frame;
            calculated_crc = mb_crc16 (take (n - 2) frame);
            frame_crc = be16 (frame ! (n - 1)) (frame ! (n - 2))
        in calculated_crc = frame_crc)"

section \<open>Frame codecs (rtu\_frame.c, ascii\_frame.c, tcp\_frame.c)\<close>

text \<open>
  A PDU or a frame is the list of its bytes; \<open>pdu_length\<close> and \<open>frame_length\<close> are
  \<open>uint16_t\<close> in C, so the lists stand for buffers of fewer than 65536 bytes.  The
  builders return the frame (its length is the C return value \<open>pos\<close>) or an error.
  The parsers are modelled for a caller that passes a PDU output buffer, as the master
  does, and return the decoded fields with the PDU bytes copied out.
  \<open>required_size\<close> is computed in \<open>int\<close> and stored in a \<open>uint16_t\<close>.
\<close>

definition mb_rtu_build_frame ::
  "uint8 \<Rightarrow> uint8 \<Rightarrow> uint8 list \<Rightarrow> uint16 \<Rightarrow> mb_error + uint8 list" where
  "mb_rtu_build_frame slave c pdu_data buffer_size =
     (let required_size = (of_nat (1 + 1 + length pdu_data + 2) :: uint16)
      in if buffer_size < required_size then Inl MB_ERROR_BUFFER_TOO_SMALL
         else
           let body = slave # c # pdu_data;
               crc = mb_crc16 body
           in Inr (body @ [ucast (crc AND 0xFF), ucast (drop_bit 8 crc AND 0xFF)]))"

definition mb_rtu_parse_frame ::
  "uint8 list \<Rightarrow> mb_error + (uint8 \<times> uint8 \<times> uint8 list)" where
  "mb_rtu_parse_frame frame_data =
     (if length frame_data < 4 then Inl MB_ERROR_INVALID_FRAME
      else if \<not> mb_crc16_verify frame_data then Inl MB_ERROR_CRC_MISMATCH
      else
        let pdu_length = length frame_data - 4
        in Inr (frame_data ! 0, frame_data ! 1, take pdu_length (drop 2 frame_data)))"

text \<open>The table \<open>"0123456789ABCDEF"\<close> of \<open>byte_to_hex\<close>, as character codes.\<close>

definition hex_chars :: "uint8 list" where
  "hex_chars = [0x30, 0x31, 0x32, 0x33, 0x34, 0x35, 0x36, 0x37, 0x38, 0x39,
                0x41, 0x42, 0x43, 0x44, 0x45, 0x46]"

definition byte_to_hex :: "uint8 \<Rightarrow> uint8 list" where
  "byte_to_hex byte =
     [hex_chars ! unat (drop_bit 4 byte AND 0x0F), hex_chars ! unat (byte AND 0x0F)]"

text \<open>
  One nibble of \<open>hex_to_byte\<close>: digits, then upper case, then lower case, otherwise
  the failure \<open>-1\<close>.  All accepted codes are below \<open>0x80\<close>, so the comparison reads the
  same for a signed and an unsigned \<open>char\<close>.
\<close>

definition hex_nibble :: "uint8 \<Rightarrow> uint8 option" where
  "hex_nibble h =
     (if h \<ge> 0x30 \<and> h \<le> 0x39 then Some (h - 0x30)
      else if h \<ge> 0x41 \<and> h \<le> 0x46 then Some (h - 0x41 + 10)
      else if h \<ge> 0x61 \<and> h \<le> 0x66 then Some (h - 0x61 + 10)
      else None)"

definition hex_to_byte :: "uint8 \<Rightarrow> uint8 \<Rightarrow> uint8 option" where
  "hex_to_byte h0 h1 =
     (case hex_nibble h0 of
        None \<Rightarrow> None
      | Some high \<Rightarrow>
          (case hex_nibble h1 of
             None \<Rightarrow> None
           | Some low \<Rightarrow> Some (push_bit 4 high OR low)))"

definition mb_ascii_build_frame ::
  "uint8 \<Rightarrow> uint8 \<Rightarrow> uint8 list \<Rightarrow> uint16 \<Rightarrow> mb_error + uint8 list" where
  "mb_ascii_build_frame slave c pdu_data buffer_size =
     (let required_size = (of_nat (1 + 2 + 2 + length pdu_data * 2 + 2 + 2) :: uint16)
      in if buffer_size < required_size then Inl MB_ERROR_BUFFER_TOO_SMALL
         else
           let lrc = mb_lrc (slave # c # pdu_data)
           in Inr (0x3A # byte_to_hex slave @ byte_to_hex c
                   @ concat (map byte_to_hex pdu_data)
                   @ byte_to_hex lrc @ [0x0D, 0x0A]))"

text \<open>The PDU loop of \<open>mb_ascii_parse_frame\<close>: \<open>n\<close> bytes from position \<open>pos\<close>;
  \<open>None\<close> is the early return of \<open>MB_ERROR_INVALID_FRAME\<close>.\<close>

fun ascii_parse_pdu :: "uint8 list \<Rightarrow> nat \<Rightarrow> nat \<Rightarrow> uint8 list option" where
  "ascii_parse_pdu frame_data pos 0 = Some []"
| "ascii_parse_pdu frame_data pos (Suc n) =
     (case hex_to_byte (frame_data ! pos) (frame_data ! (pos + 1)) of
        None \<Rightarrow> None
      | Some b \<Rightarrow>
          (case ascii_parse_pdu frame_data (pos + 2) n of
             None \<Rightarrow> None
           | Some bs \<Rightarrow> Some (b # bs)))"

definition mb_ascii_parse_frame ::
  "uint8 list \<Rightarrow> mb_error + (uint8 \<times> uint8 \<times> uint8 list)" where
  "mb_ascii_parse_frame frame_data =
     (let frame_length = length frame_data
      in if frame_length < 9 then Inl MB_ERROR_INVALID_FRAME
         else if frame_data ! 0 \<noteq> 0x3A then Inl MB_ERROR_INVALID_FRAME
         else if frame_data ! (frame_length - 2) \<noteq> 0x0D
                 \<or> frame_data ! (frame_length - 1) \<noteq> 0x0A
           then Inl MB_ERROR_INVALID_FRAME
         else
           (case hex_to_byte (frame_data ! 1) (frame_data ! 2) of
              None \<Rightarrow> Inl MB_ERROR_INVALID_FRAME
            | Some slave \<Rightarrow>
           (case hex_to_byte (frame_data ! 3) (frame_data ! 4) of
              None \<Rightarrow> Inl MB_ERROR_INVALID_FRAME
            | Some c \<Rightarrow>
                let pdu_hex_len = frame_length - 1 - 2 - 2 - 2 - 2;
                    pdu_length = pdu_hex_len div 2
                in
                (case (if pdu_length > 0 then ascii_parse_pdu frame_data 5 pdu_length
                       else Some []) of
                   None \<Rightarrow> Inl MB_ERROR_INVALID_FRAME
                 | Some pdu \<Rightarrow>
                     let pos = (if pdu_length > 0 then 5 + 2 * pdu_length
                                else 5 + pdu_hex_len)
                     in
                     (case hex_to_byte (frame_data ! pos) (frame_data ! (pos + 1)) of
                        None \<Rightarrow> Inl MB_ERROR_INVALID_FRAME
                      | Some frame_lrc \<Rightarrow>
                          if mb_lrc (slave # c # pdu) \<noteq> frame_lrc
                          then Inl MB_ERROR_LRC_MISMATCH
                          else Inr (slave, c, pdu))))))"

definition mb_tcp_build_frame ::
  "uint16 \<Rightarrow> uint8 \<Rightarrow> uint8 \<Rightarrow> uint8 list \<Rightarrow> uint16 \<Rightarrow> mb_error + uint8 list" where
  "mb_tcp_build_frame transaction_id unit_id c pdu_data buffer_size =
     (let required_size = (of_nat (7 + 1 + length pdu_data) :: uint16)
      in if buffer_size < required_size then Inl MB_ERROR_BUFFER_TOO_SMALL
         else
           let len = (of_nat (1 + 1 + length pdu_data) :: uint16)
           in Inr ([ucast (drop_bit 8 transaction_id AND 0xFF),
                    ucast (transaction_id AND 0xFF),
                    0x00, 0x00,
                    ucast (drop_bit 8 len AND 0xFF),
                    ucast (len AND 0xFF),
                    unit_id, c] @ pdu_data))"

definition mb_tcp_parse_frame ::
  "uint8 list \<Rightarrow> mb_error + (uint16 \<times> uint8 \<times> uint8 \<times> uint8 list)" where
  "mb_tcp_parse_frame frame_data =
     (if length frame_data < 8 then Inl MB_ERROR_INVALID_FRAME
      else
        let transaction_id = be16 (frame_data ! 0) (frame_data ! 1);
            protocol_id = be16 (frame_data ! 2) (frame_data ! 3)
        in if protocol_id \<noteq> 0 then Inl MB_ERROR_INVALID_FRAME
           else
             let len = be16 (frame_data ! 4) (frame_data ! 5)
             in if 6 + unat len \<noteq> length frame_data then Inl MB_ERROR_INVALID_FRAME
                else
                  let pdu_length = unat (len - 2)
                  in Inr (transaction_id, frame_data ! 6, frame_data ! 7,
                          take pdu_length (drop 8 frame_data)))"

section \<open>Address folding (block\_utils.c, \<open>mb_addresses_to_blocks\<close>)\<close>

text \<open>
  The inner loop of the bubble sort for one value of \<open>i\<close> walks \<open>j\<close> over the first
  \<open>count - i\<close> entries and swaps neighbours that are out of order; \<open>bubble_pass\<close> is
  that walk over the entries it is given.  The C variable \<open>count\<close> is \<open>cnt\<close> below.
\<close>

fun bubble_pass :: "uint16 list \<Rightarrow> uint16 list" where
  "bubble_pass (x # y # zs) =
     (if x > y then y # bubble_pass (x # zs) else x # bubble_pass (y # zs))"
| "bubble_pass xs = xs"

text \<open>The outer loop \<open>for (i = 0; i < count - 1; i++)\<close>.\<close>

function bubble_sort_loop :: "nat \<Rightarrow> nat \<Rightarrow> uint16 list \<Rightarrow> uint16 list" where
  "bubble_sort_loop i cnt sorted_addresses =
     (if i + 1 < cnt
      then bubble_sort_loop (i + 1) cnt
             (bubble_pass (take (cnt - i) sorted_addresses)
              @ drop (cnt - i) sorted_addresses)
      else sorted_addresses)"
  by pat_completeness auto
termination
  by (relation "measure (\<lambda>(i, cnt, xs). cnt - i)") auto

definition new_block :: "uint8 \<Rightarrow> uint8 \<Rightarrow> uint16 \<Rightarrow> uint16 \<Rightarrow> mb_block" where
  "new_block slave c block_start block_quantity =
     \<lparr>slave_id = slave, function_code = c, start_address = block_start,
      quantity = block_quantity, is_merged = False\<rparr>"

text \<open>
  The grouping loop over \<open>sorted_addresses[1..]\<close>: \<open>prev\<close> is
  \<open>sorted_addresses[i - 1]\<close>, \<open>blocks\<close> are the blocks written so far (\<open>num_blocks\<close>
  is their number), and the empty list is the code after the loop that saves the last
  block.  The test \<open>sorted_addresses[i] == sorted_addresses[i - 1] + 1\<close> is evaluated
  in \<open>int\<close>, so 65535 has no successor.
\<close>

fun group_loop ::
  "uint8 \<Rightarrow> uint8 \<Rightarrow> nat \<Rightarrow> uint16 \<Rightarrow> uint16 \<Rightarrow> uint16 \<Rightarrow> uint16 list \<Rightarrow> mb_block list
   \<Rightarrow> mb_error + mb_block list" where
  "group_loop slave c max_blocks prev block_start block_quantity [] blocks =
     (if length blocks \<ge> max_blocks then Inl MB_ERROR_TOO_MANY_BLOCKS
      else Inr (blocks @ [new_block slave c block_start block_quantity]))"
| "group_loop slave c max_blocks prev block_start block_quantity (x # xs) blocks =
     (if unat x = unat prev + 1
      then group_loop slave c max_blocks x block_start (block_quantity + 1) xs blocks
      else if length blocks \<ge> max_blocks then Inl MB_ERROR_TOO_MANY_BLOCKS
      else group_loop slave c max_blocks x x 1 xs
             (blocks @ [new_block slave c block_start block_quantity]))"

text \<open>
  A pointer argument is modelled by its address and by the array it points at, if it
  points at one.  The null pointer has address 0.  An integer passed where a pointer
  is expected becomes the pointer of that address; it points at no object, so a read
  through it is a run that C leaves undefined.  A pointer passed where a
  \<open>uint8_t\<close> is expected is narrowed to the low byte of its address.
\<close>

datatype 'a pointer = Pointer (ptr_address: nat) (ptr_target: "'a list option")

definition int_to_pointer :: "uint8 \<Rightarrow> 'a pointer" where
  "int_to_pointer n = Pointer (unat n) None"

definition pointer_to_uint8 :: "'a pointer \<Rightarrow> uint8" where
  "pointer_to_uint8 p = of_nat (ptr_address p)"

text \<open>
  \<open>mb_addresses_to_blocks\<close>, with its parameters in the order of the C definition:
  \<open>addresses\<close>, \<open>count\<close> (\<open>cnt\<close> below), \<open>slave_id\<close>, \<open>fc\<close>, \<open>max_blocks\<close>.
  The output pointers \<open>blocks\<close> and \<open>block_count\<close> are valid; \<open>alloc_ok\<close> tells
  whether the \<open>malloc\<close> of the sorted copy succeeds.  The result is \<open>None\<close> where
  the \<open>memcpy\<close> reads outside an object: \<open>addresses\<close> points at no array, or at
  an array of fewer than \<open>count\<close> words.
\<close>

definition mb_addresses_to_blocks ::
  "uint16 pointer \<Rightarrow> uint16 \<Rightarrow> uint8 \<Rightarrow> uint8 \<Rightarrow> uint16 \<Rightarrow> bool
   \<Rightarrow> (mb_error + mb_block list) option" where
  "mb_addresses_to_blocks addresses cnt slave c max_blocks alloc_ok =
     (if ptr_address addresses = 0 then Some (Inl MB_ERROR_INVALID_PARAM)
      else if cnt = 0 then Some (Inr [])
      else if \<not> mb_fc_is_valid c then Some (Inl MB_ERROR_INVALID_FC)
      else if \<not> alloc_ok then Some (Inl MB_ERROR_OUT_OF_MEMORY)
      else
        (case ptr_target addresses of
           None \<Rightarrow> None
         | Some arr \<Rightarrow>
             if length arr < unat cnt then None
             else
               (case bubble_sort_loop 0 (unat cnt) (take (unat cnt) arr) of
                  [] \<Rightarrow> None
                | first # rest \<Rightarrow>
                    Some (group_loop slave c (unat max_blocks) first first 1 rest []))))"

text \<open>
  The address range of a block, the gap between one block and a later one (at least
  one address lies between them), and the fields that \<open>mb_addresses_to_blocks\<close>
  gives every block it writes.
\<close>

definition block_range :: "mb_block \<Rightarrow> nat set" where
  "block_range b = {unat (start_address b) ..< block_end b}"

definition block_gap :: "mb_block \<Rightarrow> mb_block \<Rightarrow> bool" where
  "block_gap a b = (block_end a < unat (start_address b))"

definition block_meta :: "uint8 \<Rightarrow> uint8 \<Rightarrow> mb_block \<Rightarrow> bool" where
  "block_meta s c b =
     (slave_id b = s \<and> function_code b = c \<and> \<not> is_merged b \<and>
      1 \<le> unat (quantity b) \<and> block_end b \<le> 65536)"

section \<open>First-fit-decreasing packing (ffd\_pack.c)\<close>

definition mb_init_pdu :: "uint8 \<Rightarrow> uint8 \<Rightarrow> mb_pdu" where
  "mb_init_pdu slave c =
     \<lparr>pdu_slave_id = slave, pdu_function_code = c, pdu_start_address = 0,
      pdu_quantity = 0, pdu_total_chars = 0\<rparr>"

definition mb_calc_pdu_data_size :: "mb_pdu \<Rightarrow> uint16" where
  "mb_calc_pdu_data_size pdu =
     (if pdu_quantity pdu = 0 then 0
      else
        let unit_size = mb_fc_get_unit_size (pdu_function_code pdu)
        in if unit_size = 1 then of_nat ((unat (pdu_quantity pdu) + 7) div 8)
           else if unit_size = 2 then of_nat (unat (pdu_quantity pdu) * 2)
           else 0)"

text \<open>The span \<open>(uint16_t)(max_end - min_addr)\<close> that both \<open>mb_block_fits_pdu\<close> and
  \<open>mb_add_block_to_pdu\<close> compute; the ends are \<open>uint32_t\<close> sums.\<close>

definition merged_min_addr :: "mb_block \<Rightarrow> mb_pdu \<Rightarrow> uint16" where
  "merged_min_addr block pdu =
     (if start_address block < pdu_start_address pdu then start_address block
      else pdu_start_address pdu)"

definition merged_span :: "mb_block \<Rightarrow> mb_pdu \<Rightarrow> uint16" where
  "merged_span block pdu =
     (let min_addr = merged_min_addr block pdu;
          block_end = unat (start_address block) + unat (quantity block);
          pdu_end = unat (pdu_start_address pdu) + unat (pdu_quantity pdu);
          max_end = (if block_end > pdu_end then block_end else pdu_end)
      in of_nat (max_end - unat min_addr))"

definition mb_block_fits_pdu :: "mb_block \<Rightarrow> mb_pdu \<Rightarrow> uint16 \<Rightarrow> bool" where
  "mb_block_fits_pdu block pdu max_pdu_chars =
     (if pdu_quantity pdu = 0 then mb_block_calc_data_size block \<le> max_pdu_chars
      else if slave_id block \<noteq> pdu_slave_id pdu
              \<or> function_code block \<noteq> pdu_function_code pdu then False
      else
        let merged_quantity = merged_span block pdu;
            max_qty = mb_fc_get_max_quantity (function_code block)
        in if merged_quantity > max_qty then False
           else
             let unit_size = mb_fc_get_unit_size (function_code block)
             in if unit_size = 1
                then (of_nat ((unat merged_quantity + 7) div 8) :: uint16) \<le> max_pdu_chars
                else if unit_size = 2
                then (of_nat (unat merged_quantity * 2) :: uint16) \<le> max_pdu_chars
                else False)"

text \<open>\<open>mb_add_block_to_pdu\<close> changes the PDU in place and, for valid pointers, always
  returns \<open>MB_SUCCESS\<close>; the model returns the changed PDU.\<close>

definition mb_add_block_to_pdu :: "mb_block \<Rightarrow> mb_pdu \<Rightarrow> mb_pdu" where
  "mb_add_block_to_pdu block pdu =
     (if pdu_quantity pdu = 0
      then \<lparr>pdu_slave_id = slave_id block, pdu_function_code = function_code block,
            pdu_start_address = start_address block, pdu_quantity = quantity block,
            pdu_total_chars = mb_block_calc_data_size block\<rparr>
      else
        let pdu1 = pdu\<lparr>pdu_start_address := merged_min_addr block pdu,
                        pdu_quantity := merged_span block pdu\<rparr>
        in pdu1\<lparr>pdu_total_chars := mb_calc_pdu_data_size pdu1\<rparr>)"

text \<open>
  \<open>mb_block_sort_by_quantity_desc\<close> is \<open>qsort\<close> with a comparator on the quantity,
  descending.  The C library leaves the order of blocks with equal quantity open; the
  model takes the stable order.  The properties of the packer below are proved for the
  packing loop on an arbitrary block order.
\<close>

definition mb_block_sort_by_quantity_desc :: "mb_block list \<Rightarrow> mb_block list" where
  "mb_block_sort_by_quantity_desc blocks =
     sort_key (\<lambda>b. - int (unat (quantity b))) blocks"

text \<open>The first-fit scan \<open>for (j = 0; j < num_pdus; j++)\<close>: the PDUs with the block
  added to the first one it fits, or \<open>None\<close> when \<open>placed\<close> stays false.\<close>

fun ffd_first_fit :: "mb_block \<Rightarrow> uint16 \<Rightarrow> mb_pdu list \<Rightarrow> mb_pdu list option" where
  "ffd_first_fit block max_pdu_chars [] = None"
| "ffd_first_fit block max_pdu_chars (p # ps) =
     (if mb_block_fits_pdu block p max_pdu_chars
      then Some (mb_add_block_to_pdu block p # ps)
      else (case ffd_first_fit block max_pdu_chars ps of
              None \<Rightarrow> None
            | Some ps' \<Rightarrow> Some (p # ps')))"

text \<open>The loop over the sorted blocks; \<open>pdus\<close> are the \<open>num_pdus\<close> PDUs in use.\<close>

fun ffd_loop :: "mb_block list \<Rightarrow> uint16 \<Rightarrow> nat \<Rightarrow> mb_pdu list \<Rightarrow> mb_error + mb_pdu list" where
  "ffd_loop [] max_pdu_chars max_pdus pdus = Inr pdus"
| "ffd_loop (block # blocks) max_pdu_chars max_pdus pdus =
     (case ffd_first_fit block max_pdu_chars pdus of
        Some pdus' \<Rightarrow> ffd_loop blocks max_pdu_chars max_pdus pdus'
      | None \<Rightarrow>
          if length pdus \<ge> max_pdus then Inl MB_ERROR_TOO_MANY_BLOCKS
          else ffd_loop blocks max_pdu_chars max_pdus
                 (pdus @ [mb_add_block_to_pdu block
                            (mb_init_pdu (slave_id block) (function_code block))]))"

text \<open>\<open>mb_ffd_pack\<close>; \<open>alloc_ok\<close> tells whether the \<open>malloc\<close> of the working copy
  succeeds.\<close>

definition mb_ffd_pack ::
  "mb_block list \<Rightarrow> uint16 \<Rightarrow> uint16 \<Rightarrow> bool \<Rightarrow> mb_error + mb_pdu list" where
  "mb_ffd_pack blocks max_pdu_chars max_pdus alloc_ok =
     (if length blocks = 0 then Inr []
      else if \<not> alloc_ok then Inl MB_ERROR_OUT_OF_MEMORY
      else ffd_loop (mb_block_sort_by_quantity_desc blocks) max_pdu_chars (unat max_pdus) [])"

text \<open>
  The two limits of a PDU.  \<open>data_bytes c q\<close> is the byte count that
  \<open>mb_block_calc_data_size\<close> and \<open>mb_calc_pdu_data_size\<close> compute for function code
  \<open>c\<close> and quantity \<open>q\<close>, before the narrowing to \<open>uint16_t\<close>: \<open>ceil(q / 8)\<close> for
  the bit codes, \<open>2 * q\<close> for the register codes, 0 for a code of neither kind.
\<close>

definition data_bytes :: "uint8 \<Rightarrow> nat \<Rightarrow> nat" where
  "data_bytes c q =
     (let unit_size = mb_fc_get_unit_size c
      in if unit_size = 1 then (q + 7) div 8
         else if unit_size = 2 then q * 2
         else 0)"

definition block_within_limits :: "mb_block \<Rightarrow> uint16 \<Rightarrow> bool" where
  "block_within_limits block max_pdu_chars =
     (unat (quantity block) \<le> unat (mb_fc_get_max_quantity (function_code block))
      \<and> data_bytes (function_code block) (unat (quantity block)) \<le> unat max_pdu_chars)"

definition pdu_within_limits :: "mb_pdu \<Rightarrow> uint16 \<Rightarrow> bool" where
  "pdu_within_limits pdu max_pdu_chars =
     (unat (pdu_quantity pdu) \<le> unat (mb_fc_get_max_quantity (pdu_function_code pdu))
      \<and> data_bytes (pdu_function_code pdu) (unat (pdu_quantity pdu)) \<le> unat max_pdu_chars)"

section \<open>Read-response parser (response\_parser.c)\<close>

text \<open>
  \<open>mb_parse_read_response\<close> writes through a \<open>void *\<close>: bytes for the bit codes,
  16-bit words for the register codes.  The destination is modelled as the list of the
  16-bit words it holds (its length is its capacity), and the result is the
  destination after the call.  The result is \<open>None\<close> where the C code reads or writes
  outside an array, which C leaves undefined.
\<close>

text \<open>\<open>memcpy\<close> of bytes into an array of 16-bit words, as a little-endian host
  stores them; a word that receives only its low byte keeps its high byte.\<close>

definition store_bytes :: "uint8 list \<Rightarrow> uint16 list \<Rightarrow> uint16 list" where
  "store_bytes bytes dest =
     map (\<lambda>k. if 2 * k + 1 < length bytes then be16 (bytes ! (2 * k + 1)) (bytes ! (2 * k))
               else if 2 * k < length bytes
               then (dest ! k AND 0xFF00) OR ucast (bytes ! (2 * k))
               else dest ! k)
         [0 ..< length dest]"

text \<open>\<open>parse_read_bits_response\<close>.  \<open>byte_count\<close> is at most 255, so the copy stays
  inside a destination of at least 128 words; a smaller destination is overrun.\<close>

definition parse_read_bits_response ::
  "uint8 list \<Rightarrow> uint16 \<Rightarrow> uint16 list \<Rightarrow> (mb_error + uint16 list) option" where
  "parse_read_bits_response pdu_data qty dest =
     (if length pdu_data < 1 then Some (Inl MB_ERROR_INVALID_FRAME)
      else
        let byte_count = unat (pdu_data ! 0);
            expected_bytes = unat (of_nat ((unat qty + 7) div 8) :: uint16)
        in if byte_count \<noteq> expected_bytes \<or> length pdu_data < 1 + byte_count
           then Some (Inl MB_ERROR_INVALID_FRAME)
           else if byte_count > 2 * length dest then None
           else Some (Inr (store_bytes (take byte_count (drop 1 pdu_data)) dest)))"

text \<open>
  \<open>parse_read_registers_response\<close>.  \<open>expected_bytes = quantity * 2\<close> is narrowed to
  \<open>uint16_t\<close>.  The conversion loop runs \<open>quantity\<close> times, reading two PDU bytes
  and writing one word each time: it leaves the PDU when the multiplication wrapped,
  and it leaves the destination when \<open>quantity\<close> is above its capacity.
\<close>

definition parse_read_registers_response ::
  "uint8 list \<Rightarrow> uint16 \<Rightarrow> uint16 list \<Rightarrow> (mb_error + uint16 list) option" where
  "parse_read_registers_response pdu_data qty dest =
     (if length pdu_data < 1 then Some (Inl MB_ERROR_INVALID_FRAME)
      else
        let byte_count = unat (pdu_data ! 0);
            expected_bytes = unat (of_nat (unat qty * 2) :: uint16)
        in if byte_count \<noteq> expected_bytes \<or> length pdu_data < 1 + byte_count
           then Some (Inl MB_ERROR_INVALID_FRAME)
           else if length pdu_data < 1 + 2 * unat qty \<or> unat qty > length dest then None
           else Some (Inr (map (\<lambda>i. be16 (pdu_data ! (1 + i * 2)) (pdu_data ! (1 + i * 2 + 1)))
                             [0 ..< unat qty]
                           @ drop (unat qty) dest)))"

definition mb_parse_read_response ::
  "uint8 \<Rightarrow> uint8 list \<Rightarrow> uint16 \<Rightarrow> uint16 list \<Rightarrow> (mb_error + uint16 list) option" where
  "mb_parse_read_response c pdu_data qty dest =
     (if c AND 0x80 \<noteq> 0 then
        (if length pdu_data \<ge> 1 then Some (Inl MB_ERROR_EXCEPTION_RESPONSE)
         else Some (Inl MB_ERROR_INVALID_FRAME))
      else if c = 0x01 \<or> c = 0x02 then parse_read_bits_response pdu_data qty dest
      else if c = 0x03 \<or> c = 0x04 then parse_read_registers_response pdu_data qty dest
      else Some (Inl MB_ERROR_INVALID_FC))"

section \<open>Frame dispatch (frame\_builder.c)\<close>

text \<open>The default build enables all three variants (\<open>MB_ENABLE_RTU\<close>,
  \<open>MB_ENABLE_ASCII\<close>, \<open>MB_ENABLE_TCP\<close>).  The frame is returned with its length.\<close>

definition mb_build_frame ::
  "uint8 \<Rightarrow> uint8 \<Rightarrow> uint8 list \<Rightarrow> mb_mode \<Rightarrow> uint16 \<Rightarrow> mb_error + uint8 list" where
  "mb_build_frame slave c pdu_data mode buffer_size =
     (case mode of
        MB_MODE_RTU \<Rightarrow> mb_rtu_build_frame slave c pdu_data buffer_size
      | MB_MODE_ASCII \<Rightarrow> mb_ascii_build_frame slave c pdu_data buffer_size
      | MB_MODE_TCP \<Rightarrow> mb_tcp_build_frame 0 slave c pdu_data buffer_size)"

definition mb_parse_frame ::
  "uint8 list \<Rightarrow> mb_mode \<Rightarrow> mb_error + (uint8 \<times> uint8 \<times> uint8 list)" where
  "mb_parse_frame frame_data mode =
     (case mode of
        MB_MODE_RTU \<Rightarrow> mb_rtu_parse_frame frame_data
      | MB_MODE_ASCII \<Rightarrow> mb_ascii_parse_frame frame_data
      | MB_MODE_TCP \<Rightarrow>
          (case mb_tcp_parse_frame frame_data of
             Inl e \<Rightarrow> Inl e
           | Inr (transaction_id, unit_id, c, pdu) \<Rightarrow> Inr (unit_id, c, pdu)))"

section \<open>Merging a block array (gap\_merge.c)\<close>

text \<open>\<open>mb_block_sort_by_address\<close> is \<open>qsort\<close> on \<open>start_address\<close>; the model takes
  the stable order for blocks that start at the same address.\<close>

definition mb_block_sort_by_address :: "mb_block list \<Rightarrow> mb_block list" where
  "mb_block_sort_by_address blocks = sort_key (\<lambda>b. unat (start_address b)) blocks"

definition mb_merge_two_blocks :: "mb_block \<Rightarrow> mb_block \<Rightarrow> mb_error + mb_block" where
  "mb_merge_two_blocks block_a block_b = mb_block_merge block_a block_b"

text \<open>
  The two nested loops of \<open>mb_merge_block_array\<close>: \<open>current\<close> absorbs the following
  blocks while \<open>mb_should_merge_blocks\<close> holds; at the first block that does not
  merge, \<open>current\<close> is written and that block becomes the new \<open>current\<close>.
\<close>

fun merge_loop :: "mb_block \<Rightarrow> mb_block list \<Rightarrow> mb_cost_params \<Rightarrow> mb_error + mb_block list" where
  "merge_loop current [] cost_params = Inr [current]"
| "merge_loop current (next # rest) cost_params =
     (if mb_should_merge_blocks current next cost_params
      then (case mb_merge_two_blocks current next of
              Inl e \<Rightarrow> Inl e
            | Inr merged \<Rightarrow> merge_loop merged rest cost_params)
      else (case merge_loop next rest cost_params of
              Inl e \<Rightarrow> Inl e
            | Inr out \<Rightarrow> Inr (current # out)))"

definition mb_merge_block_array :: "mb_block list \<Rightarrow> mb_cost_params \<Rightarrow> mb_error + mb_block list" where
  "mb_merge_block_array blocks cost_params =
     (case mb_block_sort_by_address blocks of
        [] \<Rightarrow> Inr []
      | first # rest \<Rightarrow> merge_loop first rest cost_params)"

text \<open>\<open>mb_init_cost_params\<close> fills the structure it is given, and leaves it as it is
  when the function code has no policy.\<close>

definition mb_init_cost_params ::
  "mb_mode \<Rightarrow> uint8 \<Rightarrow> uint8 \<Rightarrow> mb_cost_params \<Rightarrow> mb_cost_params" where
  "mb_init_cost_params mode c latency params =
     (case mb_fc_get_policy c of
        None \<Rightarrow> params
      | Some policy \<Rightarrow>
          \<lparr>cp_req_fixed_chars = req_fixed_chars policy,
           cp_resp_fixed_chars = resp_fixed_chars policy,
           cp_gap_chars = (if mode = MB_MODE_RTU \<or> mode = MB_MODE_ASCII then 4 else 0),
           cp_latency_chars = latency\<rparr>)"

section \<open>Master context (mb\_config.h, mb\_transport.h)\<close>

text \<open>
  The fields of \<open>mb_transport_t\<close>, \<open>mb_config_t\<close> and \<open>mb_master_t\<close> carry the
  prefixes \<open>tr_\<close>, \<open>cfg_\<close> and \<open>m_\<close>.  The transport callbacks act on the state behind the \<open>context\<close> pointer; the model
  threads that state, of type \<open>'ctx\<close>, through every call.  \<open>tr_send\<close> returns the C
  return value; \<open>tr_recv\<close> is given \<open>max_len\<close> and returns the C return value with
  the bytes it stored (\<open>*received\<close> is their number).  \<open>None\<close> is a \<open>NULL\<close>
  callback.
\<close>

record 'ctx mb_transport =
  tr_send :: "('ctx \<Rightarrow> uint8 list \<Rightarrow> int \<times> 'ctx) option"
  tr_recv :: "('ctx \<Rightarrow> nat \<Rightarrow> (int \<times> uint8 list) \<times> 'ctx) option"
  tr_context :: 'ctx

record 'ctx mb_config =
  cfg_mode :: mb_mode
  cfg_max_pdu_chars :: uint16
  cfg_gap_chars :: uint8
  cfg_latency_chars :: uint8
  cfg_transport :: "'ctx mb_transport"
  cfg_timeout_ms :: uint32

record mb_stats =
  total_requests :: uint32
  optimized_requests :: uint32
  rounds_saved :: uint32
  blocks_merged :: uint32
  total_chars_sent :: uint32
  total_chars_recv :: uint32

record 'ctx mb_master =
  m_config :: "'ctx mb_config"
  m_transaction_id :: uint16
  m_stats :: mb_stats

text \<open>\<open>mb_read_request_t\<close>, its fields with the prefix \<open>req_\<close>.\<close>

record mb_read_request =
  req_slave_id :: uint8
  req_function_code :: uint8
  req_addresses :: "uint16 pointer"
  req_address_count :: uint16

text \<open>\<open>mb_request_plan_t\<close>; the optimizer sets \<open>frame_data\<close> to \<open>NULL\<close> and the two
  lengths to 0, and the master does not read them.\<close>

record mb_request_plan =
  plan_slave_id :: uint8
  plan_function_code :: uint8
  plan_start_address :: uint16
  plan_quantity :: uint16

section \<open>Request optimizer (request\_optimizer.c)\<close>

text \<open>
  The default build allocates on the heap (\<open>MB_USE_STATIC_MEMORY\<close> is off).
  \<open>heap k\<close> tells whether the \<open>k\<close>-th \<open>malloc\<close> of the run succeeds: 0 is the block
  array, 1 the sorted copy inside \<open>mb_addresses_to_blocks\<close>, 2 the PDU array, 3 the
  working copy inside \<open>mb_ffd_pack\<close>.

  The call of \<open>mb_addresses_to_blocks\<close> lists its arguments as
  \<open>(request->slave_id, request->function_code, request->addresses,
  request->address_count, blocks, max_blocks, &block_count)\<close>, while the definition in
  \<open>block_utils.c\<close> takes \<open>(addresses, count, slave_id, fc, blocks, max_blocks,
  block_count)\<close>.  The model passes the arguments as the call lists them, each converted
  to the type of the parameter it lands in: \<open>slave_id\<close> becomes the pointer
  \<open>addresses\<close>, \<open>function_code\<close> becomes \<open>count\<close>, the pointer
  \<open>request->addresses\<close> is narrowed to the parameter \<open>slave_id\<close>, and
  \<open>address_count\<close> is narrowed to the parameter \<open>fc\<close>.  The result is \<open>None\<close>
  where the callee reads through the pointer made from \<open>slave_id\<close>.

  \<open>cost_params\<close> is an uninitialised local in C, and \<open>mb_init_cost_params\<close> leaves
  it so when \<open>request->function_code\<close> has no policy.  \<open>mb_merge_block_array\<close>
  reads it only for an array of two or more blocks; the model starts it at zero.
\<close>

definition mb_optimize_request ::
  "mb_read_request \<Rightarrow> 'ctx mb_config \<Rightarrow> uint16 \<Rightarrow> (nat \<Rightarrow> bool)
   \<Rightarrow> (mb_error + mb_request_plan list) option" where
  "mb_optimize_request request cfg max_plans heap =
     (if req_address_count request = 0 then Some (Inr [])
      else if max_plans = 0 then Some (Inl MB_ERROR_INVALID_PARAM)
      else if \<not> heap 0 then Some (Inl MB_ERROR_NO_MEMORY)
      else
        let max_blocks = req_address_count request
        in
        (case mb_addresses_to_blocks (int_to_pointer (req_slave_id request))
                (ucast (req_function_code request))
                (pointer_to_uint8 (req_addresses request))
                (ucast (req_address_count request)) max_blocks (heap 1) of
           None \<Rightarrow> None
         | Some (Inl e) \<Rightarrow> Some (Inl e)
         | Some (Inr blocks) \<Rightarrow>
             let cost_params =
                   mb_init_cost_params (cfg_mode cfg) (req_function_code request)
                     (cfg_latency_chars cfg)
                     \<lparr>cp_req_fixed_chars = 0, cp_resp_fixed_chars = 0, cp_gap_chars = 0,
                      cp_latency_chars = 0\<rparr>
             in
             (case mb_merge_block_array blocks cost_params of
                Inl e \<Rightarrow> Some (Inl e)
              | Inr merged \<Rightarrow>
                  if \<not> heap 2 then Some (Inl MB_ERROR_NO_MEMORY)
                  else
                    let max_pdus = (of_nat (length merged) :: uint16)
                    in
                    (case mb_ffd_pack merged (cfg_max_pdu_chars cfg) max_pdus (heap 3) of
                       Inl e \<Rightarrow> Some (Inl e)
                     | Inr pdus \<Rightarrow>
                         if length pdus > unat max_plans
                         then Some (Inl MB_ERROR_TOO_MANY_PLANS)
                         else Some (Inr (map (\<lambda>p. \<lparr>plan_slave_id = pdu_slave_id p,
                                                    plan_function_code = pdu_function_code p,
                                                    plan_start_address = pdu_start_address p,
                                                    plan_quantity = pdu_quantity p\<rparr>)
                                             pdus))))))"

section \<open>Optimized read (master\_api.c, \<open>mb_master_read_optimized\<close>)\<close>

text \<open>
  The state of the plan loop: the master (statistics and transport state), the words
  written to the caller's \<open>data_buffer\<close> so far (\<open>data_index\<close> is their number; the
  loop writes the buffer from index 0 upwards without gaps), and the contents of the
  256-word \<open>temp_buffer\<close>, which lives across the iterations.
\<close>

record 'ctx read_state =
  rs_master :: "'ctx mb_master"
  rs_data :: "uint16 list"
  rs_temp :: "uint16 list"

definition count_request :: "'ctx mb_master \<Rightarrow> 'ctx mb_master" where
  "count_request m = m\<lparr>m_stats := (m_stats m)\<lparr>total_requests := total_requests (m_stats m) + 1\<rparr>\<rparr>"

definition set_context :: "'ctx mb_master \<Rightarrow> 'ctx \<Rightarrow> 'ctx mb_master" where
  "set_context m ctx =
     m\<lparr>m_config := (m_config m)\<lparr>cfg_transport := (cfg_transport (m_config m))\<lparr>tr_context := ctx\<rparr>\<rparr>\<rparr>"

text \<open>
  One iteration of the plan loop.  The result is \<open>None\<close> where C leaves the run
  undefined: the transport stored more than the 260 bytes of \<open>response_buffer\<close>, the
  response parser left \<open>temp_buffer\<close> or the PDU, or the copy loop read
  \<open>temp_buffer\<close> past its 256 words.  Otherwise it is the state after the iteration
  with \<open>Inr ()\<close> when the loop goes on and \<open>Inl e\<close> when the function returns \<open>e\<close>.
\<close>

definition execute_plan ::
  "mb_request_plan \<Rightarrow> uint16 \<Rightarrow> 'ctx read_state \<Rightarrow> ((mb_error + unit) \<times> 'ctx read_state) option"
  where
  "execute_plan plan buffer_size st =
     (let m = rs_master st;
          pdu_data = [ucast (drop_bit 8 (plan_start_address plan) AND 0xFF),
                      ucast (plan_start_address plan AND 0xFF),
                      ucast (drop_bit 8 (plan_quantity plan) AND 0xFF),
                      ucast (plan_quantity plan AND 0xFF)]
      in
      case mb_build_frame (plan_slave_id plan) (plan_function_code plan) pdu_data
             (cfg_mode (m_config m)) 260 of
        Inl e \<Rightarrow> Some (Inl e, st\<lparr>rs_master := count_request m\<rparr>)
      | Inr frame \<Rightarrow>
      (case tr_send (cfg_transport (m_config m)) of
         None \<Rightarrow> Some (Inl MB_ERROR_TRANSPORT, st)
       | Some send \<Rightarrow>
           let (sent, ctx1) = send (tr_context (cfg_transport (m_config m))) frame;
               m1 = set_context m ctx1
           in if sent < 0
              then Some (Inl MB_ERROR_TRANSPORT, st\<lparr>rs_master := count_request m1\<rparr>)
              else
              (case tr_recv (cfg_transport (m_config m1)) of
                 None \<Rightarrow> Some (Inl MB_ERROR_TRANSPORT, st\<lparr>rs_master := m1\<rparr>)
               | Some recv \<Rightarrow>
                   let ((recv_result, response), ctx2) = recv ctx1 260;
                       m2 = set_context m1 ctx2
                   in if length response > 260 then None
                      else if recv_result < 0 \<or> length response = 0
                      then Some (Inl MB_ERROR_TIMEOUT, st\<lparr>rs_master := count_request m2\<rparr>)
                      else
                      (case mb_parse_frame response (cfg_mode (m_config m2)) of
                         Inl e \<Rightarrow> Some (Inl e, st\<lparr>rs_master := count_request m2\<rparr>)
                       | Inr (resp_slave_id, resp_fc, pdu_response) \<Rightarrow>
                           if resp_slave_id \<noteq> plan_slave_id plan
                           then Some (Inl MB_ERROR_INVALID_FRAME,
                                      st\<lparr>rs_master := count_request m2\<rparr>)
                           else
                           (case mb_parse_read_response resp_fc pdu_response
                                   (plan_quantity plan) (rs_temp st) of
                              None \<Rightarrow> None
                            | Some (Inl e) \<Rightarrow>
                                Some (Inl e, st\<lparr>rs_master := count_request m2\<rparr>)
                            | Some (Inr temp) \<Rightarrow>
                                let n = min (unat (plan_quantity plan))
                                          (unat buffer_size - length (rs_data st))
                                in if n > length temp then None
                                   else
                                     let m3 = count_request (count_request m2);
                                         m4 = m3\<lparr>m_stats := (m_stats m3)
                                                \<lparr>total_chars_sent :=
                                                   total_chars_sent (m_stats m3)
                                                   + of_nat (length frame),
                                                 total_chars_recv :=
                                                   total_chars_recv (m_stats m3)
                                                   + of_nat (length response)\<rparr>\<rparr>
                                     in Some (Inr (),
                                              \<lparr>rs_master = m4,
                                               rs_data = rs_data st @ take n temp,
                                               rs_temp = temp\<rparr>))))))"

text \<open>The loop \<open>for (i = 0; i < plan_count; i++)\<close>, which returns at the first
  error.\<close>

fun execute_plans ::
  "mb_request_plan list \<Rightarrow> uint16 \<Rightarrow> 'ctx read_state
   \<Rightarrow> ((mb_error + unit) \<times> 'ctx read_state) option" where
  "execute_plans [] buffer_size st = Some (Inr (), st)"
| "execute_plans (plan # plans) buffer_size st =
     (case execute_plan plan buffer_size st of
        None \<Rightarrow> None
      | Some (Inl e, st') \<Rightarrow> Some (Inl e, st')
      | Some (Inr u, st') \<Rightarrow> execute_plans plans buffer_size st')"

text \<open>
  \<open>mb_master_read_optimized\<close> for valid pointers \<open>master\<close>, \<open>request\<close> and
  \<open>data_buffer\<close>.  \<open>temp0\<close> is what the uninitialised \<open>temp_buffer\<close> holds at
  entry (256 words).  The result is the return value, the master after the call and
  the words written to \<open>data_buffer\<close>, or \<open>None\<close> for an undefined run.
  \<open>blocks_merged\<close> grows by the \<open>int\<close> difference \<open>address_count - plan_count\<close>,
  converted to \<open>uint32_t\<close>.
\<close>

definition mb_master_read_optimized ::
  "'ctx mb_master \<Rightarrow> mb_read_request \<Rightarrow> uint16 \<Rightarrow> (nat \<Rightarrow> bool) \<Rightarrow> uint16 list
   \<Rightarrow> ((mb_error + unit) \<times> 'ctx mb_master \<times> uint16 list) option" where
  "mb_master_read_optimized master request buffer_size heap temp0 =
     (if buffer_size < req_address_count request
      then Some (Inl MB_ERROR_BUFFER_TOO_SMALL, master, [])
      else
        (case mb_optimize_request request (m_config master) 16 heap of
           None \<Rightarrow> None
         | Some (Inl e) \<Rightarrow> Some (Inl e, master, [])
         | Some (Inr plans) \<Rightarrow>
             (case execute_plans plans buffer_size
                     \<lparr>rs_master = master, rs_data = [], rs_temp = temp0\<rparr> of
                None \<Rightarrow> None
              | Some (Inl e, st) \<Rightarrow> Some (Inl e, rs_master st, rs_data st)
              | Some (Inr u, st) \<Rightarrow>
                  let m = rs_master st;
                      m' = m\<lparr>m_stats := (m_stats m)
                             \<lparr>optimized_requests := optimized_requests (m_stats m) + 1,
                              blocks_merged :=
                                blocks_merged (m_stats m)
                                + word_of_int (int (unat (req_address_count request))
                                               - int (length plans))\<rparr>\<rparr>
                  in Some (Inr (), m', rs_data st))))"

text \<open>A transport keeps the contract of \<open>recv\<close> when it never stores more than
  \<open>max_len\<close> bytes.\<close>

definition recv_within_bounds :: "'ctx mb_master \<Rightarrow> bool" where
  "recv_within_bounds m =
     (case tr_recv (cfg_transport (m_config m)) of
        None \<Rightarrow> True
      | Some recv \<Rightarrow> (\<forall>ctx max_len. length (snd (fst (recv ctx max_len))) \<le> max_len))"

section \<open>Set-up of a master (master\_api.c) and a scripted transport\<close>

text \<open>\<open>mb_config_default\<close> clears the structure, so both callbacks start as \<open>NULL\<close>;
  \<open>ctx\<close> is the state that the \<open>context\<close> pointer of the caller will stand for.\<close>

definition mb_config_default :: "mb_mode \<Rightarrow> 'ctx \<Rightarrow> 'ctx mb_config" where
  "mb_config_default md ctx =
     \<lparr>cfg_mode = md,
      cfg_max_pdu_chars = 253,
      cfg_gap_chars = (if md = MB_MODE_RTU \<or> md = MB_MODE_ASCII then 4 else 0),
      cfg_latency_chars = (if md = MB_MODE_RTU \<or> md = MB_MODE_ASCII then 2 else 1),
      cfg_transport = \<lparr>tr_send = None, tr_recv = None, tr_context = ctx\<rparr>,
      cfg_timeout_ms = 1000\<rparr>"

definition mb_master_init :: "'ctx mb_config \<Rightarrow> 'ctx mb_master" where
  "mb_master_init cfg =
     \<lparr>m_config = cfg,
      m_transaction_id = 0,
      m_stats = \<lparr>total_requests = 0, optimized_requests = 0, rounds_saved = 0,
                 blocks_merged = 0, total_chars_sent = 0, total_chars_recv = 0\<rparr>\<rparr>"

text \<open>
  A transport for worked examples, after the mock transports of the example programs:
  \<open>mock_send\<close> accepts every frame and returns its length; \<open>scripted_recv\<close> hands
  out, one per call, the responses queued in the context, and reports zero bytes when
  the queue is empty.
\<close>

definition mock_send :: "uint8 list list \<Rightarrow> uint8 list \<Rightarrow> int \<times> uint8 list list" where
  "mock_send ctx data = (int (length data), ctx)"

definition scripted_recv :: "uint8 list list \<Rightarrow> nat \<Rightarrow> (int \<times> uint8 list) \<times> uint8 list list" where
  "scripted_recv ctx max_len =
     (case ctx of [] \<Rightarrow> ((0, []), []) | r # rs \<Rightarrow> ((0, take max_len r), rs))"

definition scripted_master :: "mb_mode \<Rightarrow> uint8 list list \<Rightarrow> uint8 list list mb_master" where
  "scripted_master md responses =
     mb_master_init
       ((mb_config_default md responses)
          \<lparr>cfg_transport := \<lparr>tr_send = Some mock_send, tr_recv = Some scripted_recv,
                             tr_context = responses\<rparr>\<rparr>)"


section \<open>Properties of the block utilities and the merge decision\<close>

subsection \<open>Word arithmetic used throughout\<close>

lemma unat8_lt: "unat (x :: uint8) < 256"
  using unsigned_less [of x, where 'a = nat] by simp

lemma unat16_lt: "unat (x :: uint16) < 65536"
  using unsigned_less [of x, where 'a = nat] by simp

lemma unat_of_nat16: "n < 65536 \<Longrightarrow> unat (of_nat n :: uint16) = n"
  by (simp add: unat_of_nat)

lemma start_address_cases:
  obtains (less) "start_address a < start_address b" "\<not> start_address b < start_address a"
  | (eq) "start_address a = start_address b"
  | (greater) "start_address b < start_address a" "\<not> start_address a < start_address b"
  by (metis linorder_neqE not_less_iff_gr_or_eq)

subsection \<open>Symmetry of gap and merge\<close>

lemma mb_block_calc_gap_commute: "mb_block_calc_gap a b = mb_block_calc_gap b a"
proof (cases a b rule: start_address_cases)
  case less
  then show ?thesis by (simp add: mb_block_calc_gap_def)
next
  case eq
  then show ?thesis by (simp add: mb_block_calc_gap_def block_end_def)
next
  case greater
  then show ?thesis by (simp add: mb_block_calc_gap_def)
qed

lemma mb_block_merge_commute: "mb_block_merge a b = mb_block_merge b a"
proof (cases "mb_block_are_compatible a b")
  case False
  then show ?thesis by (auto simp: mb_block_merge_def mb_block_are_compatible_def)
next
  case True
  then have c: "mb_block_are_compatible b a" "slave_id a = slave_id b"
    "function_code a = function_code b"
    by (auto simp: mb_block_are_compatible_def)
  show ?thesis
  proof (cases a b rule: start_address_cases)
    case less
    with True c show ?thesis by (simp add: mb_block_merge_def)
  next
    case eq
    with True c show ?thesis by (auto simp add: mb_block_merge_def Let_def)
  next
    case greater
    with True c show ?thesis by (simp add: mb_block_merge_def)
  qed
qed

lemma mb_block_merge_compatible:
  "mb_block_are_compatible a b \<Longrightarrow> \<exists>r. mb_block_merge a b = Inr r"
  by (simp add: mb_block_merge_def Let_def split: prod.splits)

text \<open>
  C10.  Gap computation and block merging do not depend on the order of their two
  arguments: \<open>mb_block_calc_gap a b\<close> equals \<open>mb_block_calc_gap b a\<close> for all blocks,
  and for compatible blocks \<open>mb_block_merge a b\<close> and \<open>mb_block_merge b a\<close> both
  succeed with the same result block.
\<close>

theorem mb_block_gap_and_merge_symmetric:
  "mb_block_calc_gap a b = mb_block_calc_gap b a \<and>
   (mb_block_are_compatible a b \<longrightarrow>
      (\<exists>r. mb_block_merge a b = Inr r \<and> mb_block_merge b a = Inr r))"
  using mb_block_calc_gap_commute [of a b] mb_block_merge_commute [of a b]
    mb_block_merge_compatible [of a b]
  by auto

theorem mb_block_gap_and_merge_symmetric_witness:
  "mb_block_are_compatible
     \<lparr>slave_id = 1, function_code = 3, start_address = 105, quantity = 3, is_merged = False\<rparr>
     \<lparr>slave_id = 1, function_code = 3, start_address = 100, quantity = 3, is_merged = False\<rparr>
   \<and> mb_block_calc_gap
     \<lparr>slave_id = 1, function_code = 3, start_address = 105, quantity = 3, is_merged = False\<rparr>
     \<lparr>slave_id = 1, function_code = 3, start_address = 100, quantity = 3, is_merged = False\<rparr>
     = 2
   \<and> mb_block_calc_gap
     \<lparr>slave_id = 1, function_code = 3, start_address = 100, quantity = 3, is_merged = False\<rparr>
     \<lparr>slave_id = 1, function_code = 3, start_address = 105, quantity = 3, is_merged = False\<rparr>
     = 2
   \<and> mb_block_merge
     \<lparr>slave_id = 1, function_code = 3, start_address = 105, quantity = 3, is_merged = False\<rparr>
     \<lparr>slave_id = 1, function_code = 3, start_address = 100, quantity = 3, is_merged = False\<rparr>
     = Inr \<lparr>slave_id = 1, function_code = 3, start_address = 100, quantity = 8,
            is_merged = True\<rparr>
   \<and> mb_block_merge
     \<lparr>slave_id = 1, function_code = 3, start_address = 100, quantity = 3, is_merged = False\<rparr>
     \<lparr>slave_id = 1, function_code = 3, start_address = 105, quantity = 3, is_merged = False\<rparr>
     = Inr \<lparr>slave_id = 1, function_code = 3, start_address = 100, quantity = 8,
            is_merged = True\<rparr>"
  using mb_block_gap_and_merge_symmetric
    [of "\<lparr>slave_id = 1, function_code = 3, start_address = 105, quantity = 3,
           is_merged = False\<rparr>"
        "\<lparr>slave_id = 1, function_code = 3, start_address = 100, quantity = 3,
           is_merged = False\<rparr>"]
  by (simp add: mb_block_are_compatible_def mb_block_calc_gap_def mb_block_merge_def
      block_end_def)

subsection \<open>Adjacent blocks merge without any quantity limit\<close>

lemma adjacent_should_merge:
  assumes "mb_block_are_compatible a b" and "mb_fc_supports_merge (function_code a)"
    and "mb_block_are_adjacent a b"
  shows "mb_should_merge_blocks a b cp"
  using assms by (simp add: mb_should_merge_blocks_def)

lemma adjacent_merge_result:
  assumes "mb_block_are_compatible a b" and "mb_block_are_adjacent a b"
  shows "mb_block_merge a b =
         Inr \<lparr>slave_id = slave_id a, function_code = function_code a,
              start_address = start_address a, quantity = quantity a + quantity b,
              is_merged = True\<rparr>"
proof -
  have e: "block_end a = unat (start_address b)"
    using assms by (simp add: mb_block_are_adjacent_def)
  then have le: "\<not> start_address a > start_address b"
    by (simp add: block_end_def word_less_nat_alt)
  have "block_end b \<ge> block_end a"
    using e by (simp add: block_end_def)
  then have m: "(if block_end a > block_end b then block_end a else block_end b) = block_end b"
    by simp
  have "block_end b - unat (start_address a) = unat (quantity a) + unat (quantity b)"
    using e by (simp add: block_end_def)
  with m assms(1) le show ?thesis
    by (simp add: mb_block_merge_def Let_def)
qed

text \<open>
  C8, as the claim states it, fails where the two quantities no longer fit the 16-bit
  \<open>quantity\<close> field: block \<open>a\<close> covers address 0 and block \<open>b\<close> the addresses
  1 to 65535, they are compatible and adjacent and FC03 supports merging, yet the
  merged block has quantity 0 and so ends at address 0, before the end of either
  input block.
\<close>

theorem mb_block_merge_span_counterexample:
  "mb_block_are_compatible
     \<lparr>slave_id = 1, function_code = 3, start_address = 0, quantity = 1, is_merged = False\<rparr>
     \<lparr>slave_id = 1, function_code = 3, start_address = 1, quantity = 65535, is_merged = False\<rparr>
   \<and> mb_block_are_adjacent
     \<lparr>slave_id = 1, function_code = 3, start_address = 0, quantity = 1, is_merged = False\<rparr>
     \<lparr>slave_id = 1, function_code = 3, start_address = 1, quantity = 65535, is_merged = False\<rparr>
   \<and> mb_fc_supports_merge 3
   \<and> mb_block_merge
     \<lparr>slave_id = 1, function_code = 3, start_address = 0, quantity = 1, is_merged = False\<rparr>
     \<lparr>slave_id = 1, function_code = 3, start_address = 1, quantity = 65535, is_merged = False\<rparr>
     = Inr \<lparr>slave_id = 1, function_code = 3, start_address = 0, quantity = 0,
            is_merged = True\<rparr>
   \<and> block_end \<lparr>slave_id = 1, function_code = 3, start_address = 0, quantity = 0,
            is_merged = True\<rparr>
     < block_end \<lparr>slave_id = 1, function_code = 3, start_address = 0, quantity = 1,
            is_merged = False\<rparr>"
  by (simp add: mb_block_are_compatible_def mb_block_are_adjacent_def mb_block_merge_def
      block_end_def mb_fc_supports_merge_def mb_fc_get_policy_def fc_policy_table_def)

text \<open>
  C8, amended.  The merge decision performs no quantity-limit check: for every pair of
  compatible, adjacent blocks whose function code supports merging,
  \<open>mb_should_merge_blocks\<close> returns true for every cost setting, and whenever the two
  quantities together fit the 16-bit quantity field (their sum is below 65536)
  \<open>mb_block_merge\<close> produces a block that starts at the first block, ends where
  the second ends and has the sum of the two quantities, whatever
  \<open>max_quantity\<close> of the function code is.
\<close>

theorem mb_adjacent_blocks_merge_unchecked:
  assumes "mb_block_are_compatible a b" and "mb_fc_supports_merge (function_code a)"
    and "mb_block_are_adjacent a b"
  shows "mb_should_merge_blocks a b cp \<and>
         (unat (quantity a) + unat (quantity b) < 65536 \<longrightarrow>
            (\<exists>r. mb_block_merge a b = Inr r \<and>
                 slave_id r = slave_id a \<and> function_code r = function_code a \<and>
                 start_address r = start_address a \<and>
                 unat (quantity r) = unat (quantity a) + unat (quantity b) \<and>
                 block_end r = block_end b))"
proof -
  have adj: "block_end a = unat (start_address b)"
    using assms by (simp add: mb_block_are_adjacent_def)
  have "unat (quantity a + quantity b) = unat (quantity a) + unat (quantity b)"
    if "unat (quantity a) + unat (quantity b) < 65536"
    using that unat_add_lem [of "quantity a" "quantity b"] by simp
  then show ?thesis
    using adjacent_should_merge [OF assms, of cp] adjacent_merge_result [OF assms(1,3)] adj
    by (auto simp: block_end_def)
qed

text \<open>Two adjacent FC03 blocks of 100 registers each merge into one block of 200
  registers, above the FC03 limit of 125.\<close>

theorem mb_adjacent_blocks_merge_unchecked_witness:
  "mb_block_are_compatible
     \<lparr>slave_id = 1, function_code = 3, start_address = 0, quantity = 100, is_merged = False\<rparr>
     \<lparr>slave_id = 1, function_code = 3, start_address = 100, quantity = 100, is_merged = False\<rparr>
   \<and> mb_fc_supports_merge 3
   \<and> mb_block_are_adjacent
     \<lparr>slave_id = 1, function_code = 3, start_address = 0, quantity = 100, is_merged = False\<rparr>
     \<lparr>slave_id = 1, function_code = 3, start_address = 100, quantity = 100, is_merged = False\<rparr>
   \<and> mb_should_merge_blocks
     \<lparr>slave_id = 1, function_code = 3, start_address = 0, quantity = 100, is_merged = False\<rparr>
     \<lparr>slave_id = 1, function_code = 3, start_address = 100, quantity = 100, is_merged = False\<rparr>
     \<lparr>cp_req_fixed_chars = 6, cp_resp_fixed_chars = 5, cp_gap_chars = 4,
      cp_latency_chars = 2\<rparr>
   \<and> mb_block_merge
     \<lparr>slave_id = 1, function_code = 3, start_address = 0, quantity = 100, is_merged = False\<rparr>
     \<lparr>slave_id = 1, function_code = 3, start_address = 100, quantity = 100, is_merged = False\<rparr>
     = Inr \<lparr>slave_id = 1, function_code = 3, start_address = 0, quantity = 200,
            is_merged = True\<rparr>
   \<and> mb_fc_get_max_quantity 3 = 125"
  using mb_adjacent_blocks_merge_unchecked
    [of "\<lparr>slave_id = 1, function_code = 3, start_address = 0, quantity = 100,
           is_merged = False\<rparr>"
        "\<lparr>slave_id = 1, function_code = 3, start_address = 100, quantity = 100,
           is_merged = False\<rparr>"
        "\<lparr>cp_req_fixed_chars = 6, cp_resp_fixed_chars = 5, cp_gap_chars = 4,
          cp_latency_chars = 2\<rparr>"]
  by (simp add: mb_block_are_compatible_def mb_block_are_adjacent_def mb_block_merge_def
      block_end_def mb_fc_supports_merge_def mb_fc_get_max_quantity_def
      mb_fc_get_policy_def fc_policy_table_def)

subsection \<open>The merge decision and the 16-bit savings\<close>

lemma overhead_cost_unat:
  "unat (overhead_cost cp) =
     unat (cp_req_fixed_chars cp) + unat (cp_resp_fixed_chars cp)
     + unat (cp_gap_chars cp) + unat (cp_latency_chars cp)"
proof -
  have lt: "unat (cp_req_fixed_chars cp) + unat (cp_resp_fixed_chars cp)
             + unat (cp_gap_chars cp) + unat (cp_latency_chars cp) < 65536"
    using unat8_lt [of "cp_req_fixed_chars cp"] unat8_lt [of "cp_resp_fixed_chars cp"]
      unat8_lt [of "cp_gap_chars cp"] unat8_lt [of "cp_latency_chars cp"] by simp
  show ?thesis
    unfolding overhead_cost_def by (fact unat_of_nat16 [OF lt])
qed

lemma uint16_bounds:
  fixes x :: uint16
  assumes "unat x \<le> n"
  shows "0 \<le> uint x" and "uint x \<le> int n"
proof -
  show "0 \<le> uint x" by simp
  have "uint x = int (unat x)" by (rule uint_nat)
  with assms show "uint x \<le> int n" by linarith
qed

lemma uint_less_iff_unat:
  "uint (x :: uint16) < uint (y :: uint16) \<longleftrightarrow> unat x < unat y"
proof -
  have "uint x = int (unat x)" "uint y = int (unat y)" by (rule uint_nat)+
  then show ?thesis by linarith
qed

lemma sint16_diff_exact:
  fixes x y :: uint16
  assumes "unat x \<le> 1020" and "unat y \<le> 32768"
  shows "sint (word_of_int (uint x - uint y) :: uint16) = uint x - uint y"
proof -
  from uint16_bounds [OF assms(1)] uint16_bounds [OF assms(2)]
  have "- 32768 \<le> uint x - uint y" "uint x - uint y < 32768"
    by linarith+
  then have "- (2 ^ 15) \<le> uint x - uint y" "uint x - uint y < 2 ^ 15"
    by simp_all
  then have "signed_take_bit 15 (uint x - uint y) = uint x - uint y"
    by (rule signed_take_bit_int_eq_self)
  moreover have "sint (word_of_int (uint x - uint y) :: uint16) =
      signed_take_bit (LENGTH(16) - 1) (uint x - uint y)"
    by (rule sint_sbintrunc')
  moreover have "LENGTH(16) - 1 = (15 :: nat)"
    by simp
  ultimately show ?thesis
    by (simp only:)
qed

lemma merge_savings_exact:
  assumes "unat (mb_calc_gap_cost c g) \<le> 32768"
  shows "mb_calc_merge_savings g c cp =
         uint (overhead_cost cp) - uint (mb_calc_gap_cost c g)"
proof -
  have "unat (overhead_cost cp) \<le> 1020"
    using overhead_cost_unat [of cp] unat8_lt [of "cp_req_fixed_chars cp"]
      unat8_lt [of "cp_resp_fixed_chars cp"] unat8_lt [of "cp_gap_chars cp"]
      unat8_lt [of "cp_latency_chars cp"]
    by linarith
  from sint16_diff_exact [OF this assms] show ?thesis
    by (simp only: mb_calc_merge_savings_def)
qed

lemma gap_cost_bits:
  assumes "c = 1 \<or> c = 2"
  shows "unat (mb_calc_gap_cost c g) = (unat g + 7) div 8"
proof (cases "g = 0")
  case True
  then show ?thesis by (simp add: mb_calc_gap_cost_def)
next
  case False
  have "(unat g + 7) div 8 < 65536"
    using unat16_lt [of g] by simp
  from unat_of_nat16 [OF this] False assms show ?thesis
    by (simp only: mb_calc_gap_cost_def if_False if_True)
qed

lemma gap_cost_regs:
  assumes "c \<noteq> 1" and "c \<noteq> 2" and "unat g \<le> 16384"
  shows "unat (mb_calc_gap_cost c g) = 2 * unat g"
proof (cases "g = 0")
  case True
  then show ?thesis by (simp add: mb_calc_gap_cost_def)
next
  case False
  have "unat g * 2 < 65536"
    using assms(3) by simp
  from unat_of_nat16 [OF this] False assms(1,2) show ?thesis
    by (simp only: mb_calc_gap_cost_def if_False if_True simp_thms mult.commute)
qed

text \<open>
  Away from the 16-bit limits the code decides as the cost model says: for compatible,
  non-adjacent blocks of a merging function code with a gap of \<open>g > 0\<close> units, where
  \<open>g\<close> is at most 16384 for register codes, the blocks merge exactly when the gap
  cost (\<open>ceil(g / 8)\<close> for FC01 and FC02, \<open>2 * g\<close> otherwise) is strictly below the
  overhead.
\<close>

lemma mb_should_merge_blocks_small_gap:
  assumes "mb_block_are_compatible a b" and "mb_fc_supports_merge (function_code a)"
    and "\<not> mb_block_are_adjacent a b" and "mb_block_calc_gap a b = g" and "g \<noteq> 0"
    and "function_code a = 1 \<or> function_code a = 2 \<or> unat g \<le> 16384"
  shows "mb_should_merge_blocks a b cp \<longleftrightarrow>
     (if function_code a = 1 \<or> function_code a = 2 then (unat g + 7) div 8 else 2 * unat g)
       < unat (cp_req_fixed_chars cp) + unat (cp_resp_fixed_chars cp)
         + unat (cp_gap_chars cp) + unat (cp_latency_chars cp)"
proof -
  let ?c = "function_code a"
  have gc: "unat (mb_calc_gap_cost ?c g) =
            (if ?c = 1 \<or> ?c = 2 then (unat g + 7) div 8 else 2 * unat g)"
    using assms(6) gap_cost_bits [of ?c g] gap_cost_regs [of ?c g] by auto
  have "unat (mb_calc_gap_cost ?c g) \<le> 32768"
    using gc assms(6) unat16_lt [of g] by (auto split: if_splits)
  from merge_savings_exact [OF this, of cp]
  have "mb_calc_merge_savings g ?c cp > 0 \<longleftrightarrow>
        unat (mb_calc_gap_cost ?c g) < unat (overhead_cost cp)"
    using uint_less_iff_unat [of "mb_calc_gap_cost ?c g" "overhead_cost cp"] by linarith
  then show ?thesis
    using assms(1-5) gc by (simp add: mb_should_merge_blocks_def overhead_cost_unat)
qed

text \<open>
  C2.  The claim is the documented rule (merge exactly when the gap cost is below the
  overhead), and the code departs from it where \<open>(int16_t)(overhead_cost - gap_cost)\<close>
  wraps.  Two FC03 blocks of slave 1, one register at address 0 and one at address
  20001, are compatible and not adjacent; the gap is 20000 registers, the gap cost
  40000 characters and the overhead 17 characters, so the rule says not to merge.  The
  code computes the savings 17 - 40000 = -39983, narrows them to 16 bits as 25553, and
  merges.
\<close>

theorem mb_should_merge_blocks_savings_wrap:
  "mb_block_are_compatible
     \<lparr>slave_id = 1, function_code = 3, start_address = 0, quantity = 1, is_merged = False\<rparr>
     \<lparr>slave_id = 1, function_code = 3, start_address = 20001, quantity = 1, is_merged = False\<rparr>
   \<and> \<not> mb_block_are_adjacent
     \<lparr>slave_id = 1, function_code = 3, start_address = 0, quantity = 1, is_merged = False\<rparr>
     \<lparr>slave_id = 1, function_code = 3, start_address = 20001, quantity = 1, is_merged = False\<rparr>
   \<and> mb_block_calc_gap
     \<lparr>slave_id = 1, function_code = 3, start_address = 0, quantity = 1, is_merged = False\<rparr>
     \<lparr>slave_id = 1, function_code = 3, start_address = 20001, quantity = 1, is_merged = False\<rparr>
     = 20000
   \<and> mb_calc_gap_cost 3 20000 = 40000
   \<and> overhead_cost \<lparr>cp_req_fixed_chars = 6, cp_resp_fixed_chars = 5, cp_gap_chars = 4,
        cp_latency_chars = 2\<rparr> = 17
   \<and> mb_calc_merge_savings 20000 3
        \<lparr>cp_req_fixed_chars = 6, cp_resp_fixed_chars = 5, cp_gap_chars = 4,
         cp_latency_chars = 2\<rparr> = 25553
   \<and> mb_should_merge_blocks
     \<lparr>slave_id = 1, function_code = 3, start_address = 0, quantity = 1, is_merged = False\<rparr>
     \<lparr>slave_id = 1, function_code = 3, start_address = 20001, quantity = 1, is_merged = False\<rparr>
     \<lparr>cp_req_fixed_chars = 6, cp_resp_fixed_chars = 5, cp_gap_chars = 4,
      cp_latency_chars = 2\<rparr>"
  by (simp add: mb_should_merge_blocks_def mb_block_are_compatible_def
      mb_fc_supports_merge_def mb_fc_get_policy_def fc_policy_table_def
      mb_block_are_adjacent_def block_end_def mb_block_calc_gap_def
      mb_calc_merge_savings_def overhead_cost_def mb_calc_gap_cost_def)

section \<open>Properties of the write-response parser\<close>




section \<open>Properties of the checksums and the frame codecs\<close>

subsection \<open>Splitting and rejoining words\<close>

lemma xff_mask16: "(0xFF :: uint16) = mask 8" by (simp add: mask_eq_exp_minus_1)
lemma x0f_mask8: "(0x0F :: uint8) = mask 4" by (simp add: mask_eq_exp_minus_1)

lemma be16_of_split: "be16 (ucast (drop_bit 8 c AND 0xFF)) (ucast (c AND 0xFF)) = (c :: uint16)"
  unfolding be16_def xff_mask16
  by (rule bit_word_eqI) (auto simp: bit_simps)

lemma byte_of_nibbles: "push_bit 4 (drop_bit 4 b AND 0x0F) OR (b AND 0x0F) = (b :: uint8)"
  unfolding x0f_mask8
  by (rule bit_word_eqI) (auto simp: bit_simps)

lemma low_nibble_lt: "unat (b AND 0x0F :: uint8) < 16"
proof -
  have "unat (take_bit 4 b) = take_bit 4 (unat b)" by (rule unsigned_take_bit_eq)
  moreover have "take_bit 4 (unat b) < 2 ^ 4" by (rule take_bit_nat_less_exp)
  ultimately show ?thesis unfolding x0f_mask8 by (simp flip: take_bit_eq_mask)
qed

lemma hex_nibble_hex_chars: "k < 16 \<Longrightarrow> hex_nibble (hex_chars ! k) = Some (of_nat k)"
proof -
  assume "k < 16"
  then consider "k = 0" | "k = 1" | "k = 2" | "k = 3" | "k = 4" | "k = 5" | "k = 6" | "k = 7"
    | "k = 8" | "k = 9" | "k = 10" | "k = 11" | "k = 12" | "k = 13" | "k = 14" | "k = 15"
    by atomize_elim presburger
  then show ?thesis
    by cases (simp_all add: hex_chars_def hex_nibble_def)
qed

lemma hex_nibble_hex_chars_word: "hex_nibble (hex_chars ! unat (b AND 0x0F)) = Some (b AND 0x0F)"
  using hex_nibble_hex_chars [OF low_nibble_lt [of b]] by simp

lemma hex_to_byte_byte_to_hex: "byte_to_hex b = [h0, h1] \<Longrightarrow> hex_to_byte h0 h1 = Some b"
  using hex_nibble_hex_chars_word [of "drop_bit 4 b"] hex_nibble_hex_chars_word [of b] byte_of_nibbles [of b]
  by (auto simp: byte_to_hex_def hex_to_byte_def)

lemma byte_to_hex_two: "\<exists>h0 h1. byte_to_hex b = [h0, h1]"
  by (simp add: byte_to_hex_def)

lemma ascii_parse_pdu_concat:
  "length pre = pos \<Longrightarrow>
   ascii_parse_pdu (pre @ concat (map byte_to_hex pdu) @ rest) pos (length pdu) = Some pdu"
proof (induction pdu arbitrary: pre pos)
  case Nil
  then show ?case by simp
next
  case (Cons b pdu)
  obtain h0 h1 where h: "byte_to_hex b = [h0, h1]" using byte_to_hex_two by blast
  have "ascii_parse_pdu ((pre @ [h0, h1]) @ concat (map byte_to_hex pdu) @ rest) (pos + 2) (length pdu) = Some pdu"
    using Cons.prems by (intro Cons.IH) simp
  then show ?case
    using Cons.prems h hex_to_byte_byte_to_hex [OF h] by (simp add: nth_append)
qed

lemma rtu_round_trip:
  assumes "length pdu \<le> 253" "length pdu + 4 \<le> unat bs"
  shows "\<exists>frame. mb_rtu_build_frame s c pdu bs = Inr frame \<and> mb_rtu_parse_frame frame = Inr (s, c, pdu)"
proof -
  have "unat (of_nat (length pdu + 4) :: uint16) = length pdu + 4"
    using assms(1) by (intro unat_of_nat16) simp
  then have nb: "\<not> bs < of_nat (1 + 1 + length pdu + 2)"
    using assms(2) by (simp add: word_less_nat_alt add.commute)
  let ?crc = "mb_crc16 (s # c # pdu)"
  let ?f = "(s # c # pdu) @ [ucast (?crc AND 0xFF), ucast (drop_bit 8 ?crc AND 0xFF)]"
  have b: "mb_rtu_build_frame s c pdu bs = Inr ?f"
    using nb by (simp only: mb_rtu_build_frame_def Let_def if_False)
  have v: "mb_crc16_verify ?f"
    by (simp add: mb_crc16_verify_def Let_def nth_append be16_of_split)
  have "mb_rtu_parse_frame ?f = Inr (s, c, pdu)"
    using v by (simp add: mb_rtu_parse_frame_def)
  with b show ?thesis by blast
qed

lemma tcp_round_trip:
  assumes "length pdu \<le> 253" "length pdu + 8 \<le> unat bs"
  shows "\<exists>frame. mb_tcp_build_frame t u c pdu bs = Inr frame \<and> mb_tcp_parse_frame frame = Inr (t, u, c, pdu)"
proof -
  have "unat (of_nat (length pdu + 8) :: uint16) = length pdu + 8"
    using assms(1) by (intro unat_of_nat16) simp
  then have nb: "\<not> bs < of_nat (7 + 1 + length pdu)"
    using assms(2) by (simp add: word_less_nat_alt add.commute)
  define len :: uint16 where "len = of_nat (1 + 1 + length pdu)"
  have ul: "unat len = length pdu + 2"
    unfolding len_def using assms(1) unat_of_nat16 [of "1 + 1 + length pdu"] by simp
  have "unat (2 :: uint16) \<le> unat len" using ul by simp
  then have "unat (len - 2) = unat len - unat (2 :: uint16)"
    by (simp add: unat_sub word_le_nat_alt)
  then have ul2: "unat (len - 2) = length pdu" using ul by simp
  let ?f = "[ucast (drop_bit 8 t AND 0xFF), ucast (t AND 0xFF), 0x00, 0x00,
             ucast (drop_bit 8 len AND 0xFF), ucast (len AND 0xFF), u, c] @ pdu"
  have b: "mb_tcp_build_frame t u c pdu bs = Inr ?f"
    using nb by (simp only: mb_tcp_build_frame_def Let_def if_False len_def)
  have "mb_tcp_parse_frame ?f = Inr (t, u, c, pdu)"
    using ul ul2 by (simp add: mb_tcp_parse_frame_def Let_def be16_of_split) (simp add: be16_def)
  with b show ?thesis by blast
qed


lemma length_concat_byte_to_hex: "length (concat (map byte_to_hex pdu)) = 2 * length pdu"
  by (induction pdu) (simp_all add: byte_to_hex_def)

lemma ascii_round_trip:
  assumes "length pdu \<le> 253" "2 * length pdu + 9 \<le> unat bs"
  shows "\<exists>frame. mb_ascii_build_frame s c pdu bs = Inr frame \<and> mb_ascii_parse_frame frame = Inr (s, c, pdu)"
proof -
  have "unat (of_nat (2 * length pdu + 9) :: uint16) = 2 * length pdu + 9"
    using assms(1) by (intro unat_of_nat16) simp
  moreover have "1 + 2 + 2 + length pdu * 2 + 2 + 2 = 2 * length pdu + 9" by simp
  ultimately have nb: "\<not> bs < of_nat (1 + 2 + 2 + length pdu * 2 + 2 + 2)"
    using assms(2) by (simp only: word_less_nat_alt not_less)
  obtain s0 s1 where hs: "byte_to_hex s = [s0, s1]" using byte_to_hex_two by blast
  obtain c0 c1 where hc: "byte_to_hex c = [c0, c1]" using byte_to_hex_two by blast
  define lrc where "lrc = mb_lrc (s # c # pdu)"
  obtain l0 l1 where hl: "byte_to_hex lrc = [l0, l1]" using byte_to_hex_two by blast
  define body where "body = concat (map byte_to_hex pdu)"
  have bl: "length body = 2 * length pdu" unfolding body_def by (rule length_concat_byte_to_hex)
  define f where "f = [0x3A, s0, s1, c0, c1] @ body @ [l0, l1, 0x0D, 0x0A]"
  have b: "mb_ascii_build_frame s c pdu bs = Inr f"
    using nb hs hc hl
    by (simp only: mb_ascii_build_frame_def Let_def if_False lrc_def [symmetric]
        body_def [symmetric] f_def) simp
  have len: "length f = 9 + 2 * length pdu"
    using bl by (simp add: f_def)
  have hexlen: "9 + 2 * length pdu - 1 - 2 - 2 - 2 - 2 = 2 * length pdu"
    "2 * length pdu div 2 = length pdu"
    by simp_all
  have pp: "ascii_parse_pdu f 5 (length pdu) = Some pdu"
    unfolding f_def body_def by (rule ascii_parse_pdu_concat) simp
  have n0: "f ! 0 = 0x3A" "f ! 1 = s0" "f ! 2 = s1" "f ! 3 = c0" "f ! 4 = c1"
    by (simp_all add: f_def)
  have nl: "f ! (5 + 2 * length pdu) = l0" "f ! (5 + 2 * length pdu + 1) = l1"
    "f ! (9 + 2 * length pdu - 2) = 0x0D" "f ! (9 + 2 * length pdu - 1) = 0x0A"
    using bl by (simp_all add: f_def nth_append)
  have pe: "(if length pdu > 0 then ascii_parse_pdu f 5 (length pdu) else Some []) = Some pdu"
    using pp by simp
  have pos: "(if length pdu > 0 then 5 + 2 * length pdu else 5 + 2 * length pdu)
             = 5 + 2 * length pdu"
    by simp
  have "mb_ascii_parse_frame f = Inr (s, c, pdu)"
    unfolding mb_ascii_parse_frame_def Let_def len hexlen pe pos n0 nl
    using hex_to_byte_byte_to_hex [OF hs] hex_to_byte_byte_to_hex [OF hc] hex_to_byte_byte_to_hex [OF hl]
    by (simp add: lrc_def)
  with b show ?thesis by blast
qed

subsection \<open>Checksum verification of a frame with its own checksum\<close>

text \<open>
  C7.  Checksum verification passes on round-trip: for every non-empty byte sequence
  \<open>x\<close>, \<open>mb_crc16_verify\<close> accepts \<open>x\<close> followed by the low byte and then the high
  byte of \<open>mb_crc16 x\<close>, and \<open>mb_lrc_verify\<close> accepts \<open>x\<close> followed by \<open>mb_lrc x\<close>.
\<close>

theorem checksum_verify_round_trip:
  assumes "x \<noteq> []"
  shows "mb_crc16_verify
           (x @ [ucast (mb_crc16 x AND 0xFF), ucast (drop_bit 8 (mb_crc16 x) AND 0xFF)])
         \<and> mb_lrc_verify (x @ [mb_lrc x])"
  using assms
  by (simp add: mb_crc16_verify_def mb_lrc_verify_def Let_def nth_append be16_of_split)

lemma mb_crc16_example: "mb_crc16 [0x01, 0x03, 0x00, 0x00, 0x00, 0x02] = 0x0BC4"
  by code_simp

lemma mb_lrc_example: "mb_lrc [0x01, 0x03, 0x00, 0x00, 0x00, 0x02] = 0xFA"
  by (simp add: mb_lrc_def)

theorem checksum_verify_round_trip_witness:
  "[0x01, 0x03, 0x00, 0x00, 0x00, 0x02 :: uint8] \<noteq> []
   \<and> mb_crc16_verify [0x01, 0x03, 0x00, 0x00, 0x00, 0x02, 0xC4, 0x0B]
   \<and> mb_lrc_verify [0x01, 0x03, 0x00, 0x00, 0x00, 0x02, 0xFA]"
  using checksum_verify_round_trip [of "[0x01, 0x03, 0x00, 0x00, 0x00, 0x02]"]
  by (simp add: mb_crc16_example mb_lrc_example)

subsection \<open>The CRC residue\<close>

lemma crc16_shift_low_zero:
  "take_bit n crc = 0 \<Longrightarrow> crc16_shift n crc = drop_bit n crc"
proof (induction n arbitrary: crc)
  case 0
  then show ?case by simp
next
  case (Suc n)
  have "bit (take_bit (Suc n) crc) 0 = bit crc 0"
    by (simp add: bit_simps)
  with Suc.prems have b0: "\<not> bit crc 0"
    by simp
  then have a1: "crc AND 1 = 0"
    by (simp add: and_one_eq bit_0 mod_2_eq_odd)
  have "take_bit n (drop_bit 1 crc) = 0"
  proof (rule bit_word_eqI)
    fix k assume "k < LENGTH(16)"
    have "bit (take_bit (Suc n) crc) (Suc k) = False" using Suc.prems by simp
    then show "bit (take_bit n (drop_bit 1 crc)) k = bit (0 :: uint16) k"
      by (simp add: bit_simps)
  qed
  from Suc.IH [OF this] a1 show ?case
    by (simp add: drop_bit_drop_bit)
qed

lemma crc16_update_low: "crc16_update c (ucast (c AND 0xFF)) = drop_bit 8 c"
proof -
  let ?x = "c XOR ucast (ucast (c AND 0xFF) :: uint8)"
  have t: "take_bit 8 ?x = 0"
    unfolding xff_mask16 by (rule bit_word_eqI) (auto simp: bit_simps)
  have d: "drop_bit 8 ?x = drop_bit 8 c"
    unfolding xff_mask16 by (rule bit_word_eqI) (auto simp: bit_simps)
  from crc16_shift_low_zero [OF t] d show ?thesis by (simp add: crc16_update_def)
qed

lemma crc16_update_high: "crc16_update (drop_bit 8 c) (ucast (drop_bit 8 c AND 0xFF)) = 0"
proof -
  have "drop_bit 8 c XOR ucast (ucast (drop_bit 8 c AND 0xFF) :: uint8) = (0 :: uint16)"
    unfolding xff_mask16 by (rule bit_word_eqI) (auto simp: bit_simps dest: bit_imp_le_length)
  then show ?thesis
    using crc16_shift_low_zero [of 8 0] by (simp add: crc16_update_def)
qed

text \<open>The residue form of the round trip: the CRC of a sequence followed by its own
  CRC, low byte first, is zero.\<close>

lemma mb_crc16_residue:
  "mb_crc16 (x @ [ucast (mb_crc16 x AND 0xFF), ucast (drop_bit 8 (mb_crc16 x) AND 0xFF)]) = 0"
  by (simp add: mb_crc16_def crc16_update_low crc16_update_high)

subsection \<open>Decoding an encoded frame\<close>

text \<open>
  C4.  For every slave id, function code and PDU of 0 to 253 bytes, and a frame
  buffer large enough for the encoder to succeed, each encoder returns a frame and the
  decoder of the same variant recovers from it exactly the slave id, the function code
  and the PDU, and for TCP also the transaction id.
\<close>

theorem frame_decode_encode:
  assumes "length pdu \<le> 253"
  shows "(length pdu + 4 \<le> unat buffer_size \<longrightarrow>
           (\<exists>frame. mb_rtu_build_frame slave c pdu buffer_size = Inr frame \<and>
                     mb_rtu_parse_frame frame = Inr (slave, c, pdu)))
       \<and> (2 * length pdu + 9 \<le> unat buffer_size \<longrightarrow>
           (\<exists>frame. mb_ascii_build_frame slave c pdu buffer_size = Inr frame \<and>
                     mb_ascii_parse_frame frame = Inr (slave, c, pdu)))
       \<and> (length pdu + 8 \<le> unat buffer_size \<longrightarrow>
           (\<exists>frame. mb_tcp_build_frame tid slave c pdu buffer_size = Inr frame \<and>
                     mb_tcp_parse_frame frame = Inr (tid, slave, c, pdu)))"
  using rtu_round_trip [OF assms, of buffer_size slave c]
    ascii_round_trip [OF assms, of buffer_size slave c]
    tcp_round_trip [OF assms, of buffer_size tid slave c]
  by blast

theorem frame_decode_encode_witness:
  "length [0x00, 0x00, 0x00, 0x02 :: uint8] \<le> 253
   \<and> length [0x00, 0x00, 0x00, 0x02 :: uint8] + 4 \<le> unat (260 :: uint16)
   \<and> 2 * length [0x00, 0x00, 0x00, 0x02 :: uint8] + 9 \<le> unat (260 :: uint16)
   \<and> length [0x00, 0x00, 0x00, 0x02 :: uint8] + 8 \<le> unat (260 :: uint16)
   \<and> mb_rtu_build_frame 1 3 [0x00, 0x00, 0x00, 0x02] 260
       = Inr [0x01, 0x03, 0x00, 0x00, 0x00, 0x02, 0xC4, 0x0B]
   \<and> mb_rtu_parse_frame [0x01, 0x03, 0x00, 0x00, 0x00, 0x02, 0xC4, 0x0B]
       = Inr (1, 3, [0x00, 0x00, 0x00, 0x02])
   \<and> mb_ascii_build_frame 1 3 [0x00, 0x00, 0x00, 0x02] 260
       = Inr [0x3A, 0x30, 0x31, 0x30, 0x33, 0x30, 0x30, 0x30, 0x30, 0x30, 0x30, 0x30, 0x32,
              0x46, 0x41, 0x0D, 0x0A]
   \<and> mb_ascii_parse_frame
         [0x3A, 0x30, 0x31, 0x30, 0x33, 0x30, 0x30, 0x30, 0x30, 0x30, 0x30, 0x30, 0x32,
          0x46, 0x41, 0x0D, 0x0A]
       = Inr (1, 3, [0x00, 0x00, 0x00, 0x02])
   \<and> mb_tcp_build_frame 0x1234 1 3 [0x00, 0x00, 0x00, 0x02] 260
       = Inr [0x12, 0x34, 0x00, 0x00, 0x00, 0x06, 0x01, 0x03, 0x00, 0x00, 0x00, 0x02]
   \<and> mb_tcp_parse_frame
         [0x12, 0x34, 0x00, 0x00, 0x00, 0x06, 0x01, 0x03, 0x00, 0x00, 0x00, 0x02]
       = Inr (0x1234, 1, 3, [0x00, 0x00, 0x00, 0x02])"
  using frame_decode_encode [of "[0x00, 0x00, 0x00, 0x02]" 260 1 3 "0x1234"]
  by (simp add: mb_rtu_build_frame_def mb_ascii_build_frame_def mb_tcp_build_frame_def
      mb_crc16_example mb_lrc_example byte_to_hex_def hex_chars_def)

section \<open>Properties of the packer\<close>

subsection \<open>Every bin stays within the limits of its blocks\<close>

lemma max_quantity_le: "unat (mb_fc_get_max_quantity c) \<le> 2000"
  by (simp add: mb_fc_get_max_quantity_def mb_fc_get_policy_def fc_policy_table_def)

lemma new_bin_limits:
  "block_within_limits b m \<Longrightarrow>
   pdu_within_limits (mb_add_block_to_pdu b (mb_init_pdu (slave_id b) (function_code b))) m"
  by (simp add: block_within_limits_def pdu_within_limits_def mb_add_block_to_pdu_def mb_init_pdu_def)

lemma of_nat16_le:
  assumes "n < 65536" "(of_nat n :: uint16) \<le> m"
  shows "n \<le> unat m"
  using assms unat_of_nat16 [of n] by (simp add: word_le_nat_alt)

lemma fits_add_limits:
  assumes "mb_block_fits_pdu b p m" and "block_within_limits b m"
  shows "pdu_within_limits (mb_add_block_to_pdu b p) m"
proof (cases "pdu_quantity p = 0")
  case True
  with assms(2) show ?thesis
    by (simp add: block_within_limits_def pdu_within_limits_def mb_add_block_to_pdu_def)
next
  case False
  let ?c = "function_code b" and ?q = "merged_span b p"
  from assms(1) False have c: "?c = pdu_function_code p"
    by (auto simp: mb_block_fits_pdu_def split: if_splits)
  from assms(1) False have q: "\<not> ?q > mb_fc_get_max_quantity ?c"
    by (auto simp: mb_block_fits_pdu_def Let_def split: if_splits)
  then have qn: "unat ?q \<le> unat (mb_fc_get_max_quantity ?c)"
    by (simp add: word_less_nat_alt)
  with max_quantity_le [of ?c] have q2: "unat ?q \<le> 2000" by linarith
  have d: "data_bytes ?c (unat ?q) \<le> unat m"
  proof -
    consider (bit) "mb_fc_get_unit_size ?c = 1" "(of_nat ((unat ?q + 7) div 8) :: uint16) \<le> m"
      | (reg) "mb_fc_get_unit_size ?c \<noteq> 1" "mb_fc_get_unit_size ?c = 2" "(of_nat (unat ?q * 2) :: uint16) \<le> m"
      using assms(1) False q by (auto simp: mb_block_fits_pdu_def Let_def split: if_splits)
    then show ?thesis
    proof cases
      case bit
      have "(unat ?q + 7) div 8 < 65536" using q2 by simp
      from of_nat16_le [OF this bit(2)] bit(1) show ?thesis by (simp add: data_bytes_def)
    next
      case reg
      have "unat ?q * 2 < 65536" using q2 by simp
      from of_nat16_le [OF this reg(3)] reg(1,2) show ?thesis by (simp add: data_bytes_def)
    qed
  qed
  from False c qn d show ?thesis
    by (simp add: pdu_within_limits_def mb_add_block_to_pdu_def Let_def)
qed

lemma first_fit_limits:
  "ffd_first_fit b m ps = Some ps' \<Longrightarrow> block_within_limits b m \<Longrightarrow>
   \<forall>p\<in>set ps. pdu_within_limits p m \<Longrightarrow> \<forall>p\<in>set ps'. pdu_within_limits p m"
proof (induction ps arbitrary: ps')
  case Nil
  then show ?case by simp
next
  case (Cons p ps)
  show ?case
  proof (cases "mb_block_fits_pdu b p m")
    case True
    with Cons.prems fits_add_limits [OF True Cons.prems(2)] show ?thesis by auto
  next
    case False
    with Cons.prems obtain qs where qs: "ffd_first_fit b m ps = Some qs" "ps' = p # qs"
      by (auto split: option.splits)
    with Cons.IH [OF qs(1) Cons.prems(2)] Cons.prems(3) show ?thesis by simp
  qed
qed

lemma first_fit_length: "ffd_first_fit b m ps = Some ps' \<Longrightarrow> length ps' = length ps"
  by (induction ps arbitrary: ps') (auto split: if_splits option.splits)

lemma ffd_loop_limits:
  "ffd_loop bs m mx ps = Inr out \<Longrightarrow> \<forall>b\<in>set bs. block_within_limits b m \<Longrightarrow>
   \<forall>p\<in>set ps. pdu_within_limits p m \<Longrightarrow> \<forall>p\<in>set out. pdu_within_limits p m"
proof (induction bs arbitrary: ps)
  case Nil
  then show ?case by simp
next
  case (Cons b bs)
  have bl: "block_within_limits b m" and rest: "\<forall>b\<in>set bs. block_within_limits b m"
    using Cons.prems(2) by simp_all
  show ?case
  proof (cases "ffd_first_fit b m ps")
    case (Some ps')
    with Cons.prems(1) have "ffd_loop bs m mx ps' = Inr out" by simp
    from Cons.IH [OF this rest first_fit_limits [OF Some bl Cons.prems(3)]] show ?thesis .
  next
    case None
    let ?n = "mb_add_block_to_pdu b (mb_init_pdu (slave_id b) (function_code b))"
    from None Cons.prems(1) have l: "ffd_loop bs m mx (ps @ [?n]) = Inr out"
      by (simp split: if_splits)
    have "\<forall>p\<in>set (ps @ [?n]). pdu_within_limits p m"
      using Cons.prems(3) new_bin_limits [OF bl] by simp
    from Cons.IH [OF l rest this] show ?thesis .
  qed
qed

lemma ffd_loop_succeeds:
  "length ps + length bs \<le> mx \<Longrightarrow> \<exists>out. ffd_loop bs m mx ps = Inr out"
proof (induction bs arbitrary: ps)
  case Nil
  then show ?case by simp
next
  case (Cons b bs)
  show ?case
  proof (cases "ffd_first_fit b m ps")
    case (Some ps')
    with first_fit_length [OF Some] Cons.prems Cons.IH [of ps'] show ?thesis by simp
  next
    case None
    with Cons.prems Cons.IH [of "ps @ [mb_add_block_to_pdu b (mb_init_pdu (slave_id b) (function_code b))]"]
    show ?thesis by simp
  qed
qed

text \<open>
  The bins keep the limits that the blocks keep.  For every input block array in which
  each block is itself within the two limits (its quantity is at most
  \<open>max_quantity\<close> of its function code, and its data size, \<open>2 * quantity\<close> bytes for
  register kinds and \<open>ceil(quantity / 8)\<close> bytes for bit kinds, is at most
  \<open>max_pdu_chars\<close>), every PDU bin that \<open>mb_ffd_pack\<close> produces satisfies both
  limits; and \<open>mb_ffd_pack\<close> does produce its bins whenever the allocation succeeds
  and \<open>max_pdus\<close> is at least the number of blocks.
\<close>

lemma mb_ffd_pack_limits:
  assumes "\<forall>b\<in>set blocks. block_within_limits b max_pdu_chars"
  shows "(alloc_ok \<and> length blocks \<le> unat max_pdus \<longrightarrow>
            (\<exists>pdus. mb_ffd_pack blocks max_pdu_chars max_pdus alloc_ok = Inr pdus))
       \<and> (\<forall>pdus. mb_ffd_pack blocks max_pdu_chars max_pdus alloc_ok = Inr pdus \<longrightarrow>
            (\<forall>p\<in>set pdus. pdu_within_limits p max_pdu_chars))"
proof (intro conjI impI allI)
  assume "alloc_ok \<and> length blocks \<le> unat max_pdus"
  then show "\<exists>pdus. mb_ffd_pack blocks max_pdu_chars max_pdus alloc_ok = Inr pdus"
    using ffd_loop_succeeds [of "[]" "mb_block_sort_by_quantity_desc blocks" "unat max_pdus" max_pdu_chars]
    by (simp add: mb_ffd_pack_def mb_block_sort_by_quantity_desc_def)
next
  fix pdus
  assume r: "mb_ffd_pack blocks max_pdu_chars max_pdus alloc_ok = Inr pdus"
  show "\<forall>p\<in>set pdus. pdu_within_limits p max_pdu_chars"
  proof (cases "length blocks = 0")
    case True
    with r show ?thesis by (simp add: mb_ffd_pack_def)
  next
    case False
    with r have "ffd_loop (mb_block_sort_by_quantity_desc blocks) max_pdu_chars (unat max_pdus) [] = Inr pdus"
      by (simp add: mb_ffd_pack_def split: if_splits)
    moreover have "\<forall>b\<in>set (mb_block_sort_by_quantity_desc blocks). block_within_limits b max_pdu_chars"
      using assms by (simp add: mb_block_sort_by_quantity_desc_def)
    ultimately show ?thesis
      using ffd_loop_limits by force
  qed
qed

text \<open>Two FC03 blocks of 125 registers each fill one bin each.\<close>

lemma mb_ffd_pack_limits_example:
  "block_within_limits
     \<lparr>slave_id = 1, function_code = 3, start_address = 100, quantity = 125,
      is_merged = False\<rparr> 253
   \<and> block_within_limits
     \<lparr>slave_id = 1, function_code = 3, start_address = 300, quantity = 125,
      is_merged = False\<rparr> 253
   \<and> length [\<lparr>slave_id = 1, function_code = 3, start_address = 100, quantity = 125,
                is_merged = False\<rparr>,
               \<lparr>slave_id = 1, function_code = 3, start_address = 300, quantity = 125,
                is_merged = False\<rparr>] \<le> unat (10 :: uint16)
   \<and> mb_ffd_pack
        [\<lparr>slave_id = 1, function_code = 3, start_address = 100, quantity = 125,
          is_merged = False\<rparr>,
         \<lparr>slave_id = 1, function_code = 3, start_address = 300, quantity = 125,
          is_merged = False\<rparr>] 253 10 True
      = Inr [\<lparr>pdu_slave_id = 1, pdu_function_code = 3, pdu_start_address = 100,
              pdu_quantity = 125, pdu_total_chars = 250\<rparr>,
             \<lparr>pdu_slave_id = 1, pdu_function_code = 3, pdu_start_address = 300,
              pdu_quantity = 125, pdu_total_chars = 250\<rparr>]
   \<and> pdu_within_limits
        \<lparr>pdu_slave_id = 1, pdu_function_code = 3, pdu_start_address = 100,
         pdu_quantity = 125, pdu_total_chars = 250\<rparr> 253
   \<and> pdu_within_limits
        \<lparr>pdu_slave_id = 1, pdu_function_code = 3, pdu_start_address = 300,
         pdu_quantity = 125, pdu_total_chars = 250\<rparr> 253"
proof -
  have lim: "\<forall>b\<in>set [\<lparr>slave_id = 1, function_code = 3, start_address = 100, quantity = 125,
                is_merged = False\<rparr>,
               \<lparr>slave_id = 1, function_code = 3, start_address = 300, quantity = 125,
                is_merged = False\<rparr>].
      block_within_limits b 253"
    by (simp add: block_within_limits_def data_bytes_def mb_fc_get_unit_size_def
        mb_fc_get_max_quantity_def mb_fc_get_policy_def fc_policy_table_def)
  have run: "mb_ffd_pack
        [\<lparr>slave_id = 1, function_code = 3, start_address = 100, quantity = 125,
          is_merged = False\<rparr>,
         \<lparr>slave_id = 1, function_code = 3, start_address = 300, quantity = 125,
          is_merged = False\<rparr>] 253 10 True
      = Inr [\<lparr>pdu_slave_id = 1, pdu_function_code = 3, pdu_start_address = 100,
              pdu_quantity = 125, pdu_total_chars = 250\<rparr>,
             \<lparr>pdu_slave_id = 1, pdu_function_code = 3, pdu_start_address = 300,
              pdu_quantity = 125, pdu_total_chars = 250\<rparr>]"
    by (simp add: mb_ffd_pack_def mb_block_sort_by_quantity_desc_def mb_add_block_to_pdu_def
        mb_init_pdu_def mb_block_calc_data_size_def mb_fc_get_unit_size_def
        mb_block_fits_pdu_def merged_span_def merged_min_addr_def
        mb_fc_get_max_quantity_def mb_fc_get_policy_def fc_policy_table_def)
  from mb_ffd_pack_limits [OF lim, of True 10] lim run show ?thesis
    by simp
qed

text \<open>
  C3.  The claim asks that every bin of \<open>mb_ffd_pack\<close> keeps both limits, for every
  input block array; \<open>ffd_pack.h\<close> states the same (\<open>respecting the MAX_PDU_CHAR
  limit\<close>).  The code checks the limits only when it adds a block to an existing bin.
  A new bin is initialised from its block without any check, so a block that is itself
  over the limits, such as the merger produces (two adjacent FC03 blocks of 100
  registers merge into one of 200), becomes a bin over the limits: with
  \<open>max_pdu_chars\<close> at its default of 253, \<open>mb_ffd_pack\<close> returns \<open>MB_SUCCESS\<close> and
  one bin of quantity 200, above the FC03 maximum of 125, and of 400 data bytes, above
  253.
\<close>

theorem mb_ffd_pack_oversized_bin:
  "mb_ffd_pack
     [\<lparr>slave_id = 1, function_code = 3, start_address = 0, quantity = 200,
       is_merged = True\<rparr>] 253 1 True
   = Inr [\<lparr>pdu_slave_id = 1, pdu_function_code = 3, pdu_start_address = 0,
           pdu_quantity = 200, pdu_total_chars = 400\<rparr>]
   \<and> mb_fc_get_max_quantity 3 = 125
   \<and> data_bytes 3 200 = 400
   \<and> \<not> pdu_within_limits
        \<lparr>pdu_slave_id = 1, pdu_function_code = 3, pdu_start_address = 0,
         pdu_quantity = 200, pdu_total_chars = 400\<rparr> 253"
  by (simp add: mb_ffd_pack_def mb_block_sort_by_quantity_desc_def mb_add_block_to_pdu_def
      mb_init_pdu_def mb_block_calc_data_size_def mb_fc_get_unit_size_def
      mb_fc_get_max_quantity_def mb_fc_get_policy_def fc_policy_table_def
      pdu_within_limits_def data_bytes_def)

section \<open>Properties of the address folding\<close>

subsection \<open>The bubble sort sorts\<close>

lemma mset_bubble_pass: "mset (bubble_pass xs) = mset xs"
  by (induction xs rule: bubble_pass.induct) auto

lemma length_bubble_pass: "length (bubble_pass xs) = length xs"
  using mset_bubble_pass [of xs] by (metis size_mset)

lemma set_bubble_pass: "set (bubble_pass xs) = set xs"
  using mset_bubble_pass [of xs] by (metis set_mset_mset)

lemma bubble_pass_last:
  "xs \<noteq> [] \<Longrightarrow> \<forall>x\<in>set xs. x \<le> last (bubble_pass xs)"
proof (induction xs rule: bubble_pass.induct)
  case (1 x y zs)
  show ?case
  proof (cases "x > y")
    case True
    from 1(1) [OF True] have ih: "\<forall>a\<in>set (x # zs). a \<le> last (bubble_pass (x # zs))" by simp
    have ne: "bubble_pass (x # zs) \<noteq> []"
      using length_bubble_pass [of "x # zs"] by auto
    from True ih have "y \<le> last (bubble_pass (x # zs))" by auto
    with True ih ne show ?thesis by auto
  next
    case False
    from 1(2) [OF False] have ih: "\<forall>a\<in>set (y # zs). a \<le> last (bubble_pass (y # zs))" by simp
    have ne: "bubble_pass (y # zs) \<noteq> []"
      using length_bubble_pass [of "y # zs"] by auto
    from False ih have "x \<le> last (bubble_pass (y # zs))" by auto
    with False ih ne show ?thesis by auto
  qed
qed simp_all


lemma bubble_pass_snoc:
  assumes "xs \<noteq> []"
  shows "bubble_pass xs = butlast (bubble_pass xs) @ [last (bubble_pass xs)]"
  using assms length_bubble_pass [of xs] by (metis append_butlast_last_id length_0_conv)

lemma bubble_sort_loop_sorts:
  assumes "length xs = n"
    and "sorted (drop (n - i) xs)"
    and "\<forall>x\<in>set (take (n - i) xs). \<forall>y\<in>set (drop (n - i) xs). x \<le> y"
  shows "sorted (bubble_sort_loop i n xs) \<and> mset (bubble_sort_loop i n xs) = mset xs"
  using assms
proof (induction i n xs rule: bubble_sort_loop.induct)
  case (1 i n xs)
  show ?case
  proof (cases "i + 1 < n")
    case False
    then have "length (take (n - i) xs) \<le> 1" using "1.prems"(1) by simp
    moreover have "sorted ys" if "length ys \<le> 1" for ys :: "uint16 list"
      using that by (cases ys) auto
    ultimately have "sorted (take (n - i) xs)"
      by blast
    with "1.prems"(2,3) have "sorted (take (n - i) xs @ drop (n - i) xs)"
      unfolding sorted_append by blast
    then have "sorted xs" by (simp only: append_take_drop_id)
    with False show ?thesis by simp
  next
    case True
    let ?pre = "take (n - i) xs" and ?suf = "drop (n - i) xs"
    let ?bp = "bubble_pass ?pre"
    let ?xs' = "?bp @ ?suf"
    have lp: "length ?pre = n - i" using "1.prems"(1) by simp
    then have ne: "?pre \<noteq> []" using True by auto
    have lbp: "length ?bp = n - i" using lp by (simp add: length_bubble_pass)
    have sn: "?bp = butlast ?bp @ [last ?bp]" by (rule bubble_pass_snoc [OF ne])
    have lbl: "length (butlast ?bp) = n - (i + 1)" using lbp by simp
    have len': "length ?xs' = n" using lbp "1.prems"(1) by simp
    have xs'_eq: "?xs' = butlast ?bp @ (last ?bp # ?suf)"
      using sn by (metis append.assoc append_Cons append_Nil)
    have tk: "take (n - (i + 1)) ?xs' = butlast ?bp"
      using lbl by (subst xs'_eq) simp
    have dr: "drop (n - (i + 1)) ?xs' = last ?bp # ?suf"
      using lbl by (subst xs'_eq) simp
    have mx: "\<forall>x\<in>set ?pre. x \<le> last ?bp" by (rule bubble_pass_last [OF ne])
    have lin: "last ?bp \<in> set ?pre"
      using sn set_bubble_pass [of ?pre] by (metis in_set_conv_decomp)
    have bin: "set (butlast ?bp) \<subseteq> set ?pre"
      using set_bubble_pass [of ?pre] by (metis in_set_butlastD subsetI)
    have s1: "sorted (drop (n - (i + 1)) ?xs')"
      using dr lin "1.prems"(2,3) by simp
    have s2: "\<forall>x\<in>set (take (n - (i + 1)) ?xs'). \<forall>y\<in>set (drop (n - (i + 1)) ?xs'). x \<le> y"
      using tk dr bin mx "1.prems"(3) by auto
    from "1.IH" [OF True len' s1 s2]
    have "sorted (bubble_sort_loop (i + 1) n ?xs') \<and> mset (bubble_sort_loop (i + 1) n ?xs') = mset ?xs'" .
    moreover have "mset ?xs' = mset xs"
    proof -
      have "mset ?xs' = mset ?pre + mset ?suf" by (simp add: mset_bubble_pass)
      also have "\<dots> = mset (?pre @ ?suf)" by (rule mset_append [symmetric])
      also have "\<dots> = mset xs" by (simp only: append_take_drop_id)
      finally show ?thesis .
    qed
    moreover have "bubble_sort_loop i n xs = bubble_sort_loop (i + 1) n ?xs'"
      using True by (subst bubble_sort_loop.simps) simp
    ultimately show ?thesis by simp
  qed
qed

lemma bubble_sort_loop_sort: "bubble_sort_loop 0 (length xs) xs = sort xs"
proof -
  have "sorted (bubble_sort_loop 0 (length xs) xs) \<and> mset (bubble_sort_loop 0 (length xs) xs) = mset xs"
    by (rule bubble_sort_loop_sorts) simp_all
  then show ?thesis
    by (metis properties_for_sort)
qed

subsection \<open>The grouping loop\<close>

lemma new_block_simps:
  "block_end (new_block s c st q) = unat st + unat q"
  "start_address (new_block s c st q) = st"
  "block_range (new_block s c st q) = {unat st ..< unat st + unat q}"
  "block_meta s c (new_block s c st q) = (1 \<le> unat q \<and> unat st + unat q \<le> 65536)"
  by (simp_all add: new_block_def block_end_def block_range_def block_meta_def)

lemma group_loop_props:
  assumes "group_loop s c mx prev st q rest acc = Inr bs"
    and "sorted_wrt (<) (prev # rest)"
    and "unat st + unat q = unat prev + 1" and "1 \<le> unat q"
    and "unat q + length rest < 65536"
    and "sorted_wrt block_gap acc"
    and "\<forall>b\<in>set acc. block_end b < unat st"
    and "\<forall>b\<in>set acc. block_meta s c b"
  shows "sorted_wrt block_gap bs \<and> (\<forall>b\<in>set bs. block_meta s c b) \<and>
         (\<Union>b\<in>set bs. block_range b) =
           (\<Union>b\<in>set acc. block_range b) \<union> {unat st .. unat prev} \<union> unat ` set rest"
  using assms
proof (induction rest arbitrary: prev st q acc)
  case Nil
  let ?n = "new_block s c st q"
  from Nil.prems(1) have bs: "bs = acc @ [?n]" by (simp split: if_splits)
  have pl: "unat prev < 65536" by (rule unat16_lt)
  have r: "block_range ?n = {unat st .. unat prev}"
    using Nil.prems(3) by (auto simp: new_block_simps)
  have m: "block_meta s c ?n"
    using Nil.prems(3,4) pl by (simp add: new_block_simps)
  have "\<forall>b\<in>set acc. block_gap b ?n"
    using Nil.prems(7) by (simp add: block_gap_def new_block_simps)
  then have g: "sorted_wrt block_gap (acc @ [?n])"
    using Nil.prems(6) by (simp add: sorted_wrt_append)
  from bs r m g Nil.prems(8) show ?case by auto
next
  case (Cons x xs)
  have px: "prev < x" and sx: "sorted_wrt (<) (x # xs)"
    using Cons.prems(2) by simp_all
  then have pxn: "unat prev < unat x" by (simp add: word_less_nat_alt)
  have xl: "unat x < 65536" by (rule unat16_lt)
  show ?case
  proof (cases "unat x = unat prev + 1")
    case True
    have q1: "unat (q + 1) = unat q + 1"
      using Cons.prems(5) unat_add_lem [of q 1] by simp
    from True Cons.prems(1) have r: "group_loop s c mx x st (q + 1) xs acc = Inr bs" by simp
    have "sorted_wrt block_gap bs \<and> (\<forall>b\<in>set bs. block_meta s c b) \<and>
         (\<Union>b\<in>set bs. block_range b) =
           (\<Union>b\<in>set acc. block_range b) \<union> {unat st .. unat x} \<union> unat ` set xs"
      using Cons.prems(3,4,5,6,7,8) True q1 sx
      by (intro Cons.IH [OF r]) simp_all
    moreover have "{unat st .. unat x} = {unat st .. unat prev} \<union> {unat x}"
      using True Cons.prems(3,4) by auto
    ultimately show ?thesis by auto
  next
    case False
    let ?n = "new_block s c st q"
    from False Cons.prems(1) have r: "group_loop s c mx x x 1 xs (acc @ [?n]) = Inr bs"
      by (simp split: if_splits)
    have rn: "block_range ?n = {unat st .. unat prev}"
      using Cons.prems(3) by (auto simp: new_block_simps)
    have m: "block_meta s c ?n"
      using Cons.prems(3,4) pxn xl by (simp add: new_block_simps)
    have en: "block_end ?n < unat x"
      using Cons.prems(3) pxn False by (simp add: new_block_simps)
    have "\<forall>b\<in>set acc. block_gap b ?n"
      using Cons.prems(7) by (simp add: block_gap_def new_block_simps)
    then have g: "sorted_wrt block_gap (acc @ [?n])"
      using Cons.prems(6) by (simp add: sorted_wrt_append)
    have lt: "\<forall>b\<in>set (acc @ [?n]). block_end b < unat x"
      using Cons.prems(3,7) en pxn by auto
    have "sorted_wrt block_gap bs \<and> (\<forall>b\<in>set bs. block_meta s c b) \<and>
         (\<Union>b\<in>set bs. block_range b) =
           (\<Union>b\<in>set (acc @ [?n]). block_range b) \<union> {unat x .. unat x} \<union> unat ` set xs"
      using sx Cons.prems(5,8) g lt m
      by (intro Cons.IH [OF r]) simp_all
    with rn show ?thesis by auto
  qed
qed

lemma group_loop_sorted:
  assumes "group_loop s c mx prev st q rest acc = Inr bs"
    and "sorted (prev # rest)"
    and "unat st + unat q = unat prev + 1" and "1 \<le> unat q"
    and "unat q + length rest < 65536"
    and "sorted_wrt (\<lambda>a b. start_address a \<le> start_address b) acc"
    and "\<forall>b\<in>set acc. start_address b \<le> st"
    and "\<forall>b\<in>set acc. block_meta s c b"
  shows "sorted_wrt (\<lambda>a b. start_address a \<le> start_address b) bs \<and>
         (\<forall>b\<in>set bs. block_meta s c b) \<and>
         (\<Union>b\<in>set bs. block_range b) =
           (\<Union>b\<in>set acc. block_range b) \<union> {unat st .. unat prev} \<union> unat ` set rest"
  using assms
proof (induction rest arbitrary: prev st q acc)
  case Nil
  let ?n = "new_block s c st q"
  from Nil.prems(1) have bs: "bs = acc @ [?n]" by (simp split: if_splits)
  have pl: "unat prev < 65536" by (rule unat16_lt)
  have r: "block_range ?n = {unat st .. unat prev}"
    using Nil.prems(3) by (auto simp: new_block_simps)
  have m: "block_meta s c ?n"
    using Nil.prems(3,4) pl by (simp add: new_block_simps)
  have g: "sorted_wrt (\<lambda>a b. start_address a \<le> start_address b) (acc @ [?n])"
    using Nil.prems(6,7) by (simp add: sorted_wrt_append new_block_simps)
  from bs r m g Nil.prems(8) show ?case by auto
next
  case (Cons x xs)
  have px: "prev \<le> x" and sx: "sorted (x # xs)"
    using Cons.prems(2) by simp_all
  then have pxn: "unat prev \<le> unat x" by (simp add: word_le_nat_alt)
  have xl: "unat x < 65536" by (rule unat16_lt)
  have pl: "unat prev < 65536" by (rule unat16_lt)
  have stp: "st \<le> prev" using Cons.prems(3,4) by (simp add: word_le_nat_alt)
  show ?case
  proof (cases "unat x = unat prev + 1")
    case True
    have q1: "unat (q + 1) = unat q + 1"
      using Cons.prems(5) unat_add_lem [of q 1] by simp
    from True Cons.prems(1) have r: "group_loop s c mx x st (q + 1) xs acc = Inr bs" by simp
    have "sorted_wrt (\<lambda>a b. start_address a \<le> start_address b) bs \<and>
         (\<forall>b\<in>set bs. block_meta s c b) \<and>
         (\<Union>b\<in>set bs. block_range b) =
           (\<Union>b\<in>set acc. block_range b) \<union> {unat st .. unat x} \<union> unat ` set xs"
      using Cons.prems(3,4,5,6,7,8) True q1 sx
      by (intro Cons.IH [OF r]) simp_all
    moreover have "{unat st .. unat x} = {unat st .. unat prev} \<union> {unat x}"
      using True Cons.prems(3,4) by auto
    ultimately show ?thesis by auto
  next
    case False
    let ?n = "new_block s c st q"
    from False Cons.prems(1) have r: "group_loop s c mx x x 1 xs (acc @ [?n]) = Inr bs"
      by (simp split: if_splits)
    have rn: "block_range ?n = {unat st .. unat prev}"
      using Cons.prems(3) by (auto simp: new_block_simps)
    have m: "block_meta s c ?n"
      using Cons.prems(3,4) pl by (simp add: new_block_simps)
    have g: "sorted_wrt (\<lambda>a b. start_address a \<le> start_address b) (acc @ [?n])"
      using Cons.prems(6,7) by (simp add: sorted_wrt_append new_block_simps)
    have le: "\<forall>b\<in>set (acc @ [?n]). start_address b \<le> x"
      using Cons.prems(7) stp px by (auto simp: new_block_simps)
    have "sorted_wrt (\<lambda>a b. start_address a \<le> start_address b) bs \<and>
         (\<forall>b\<in>set bs. block_meta s c b) \<and>
         (\<Union>b\<in>set bs. block_range b) =
           (\<Union>b\<in>set (acc @ [?n]). block_range b) \<union> {unat x .. unat x} \<union> unat ` set xs"
      using sx Cons.prems(5,8) g le m
      by (intro Cons.IH [OF r]) simp_all
    with rn show ?thesis by auto
  qed
qed

lemma group_loop_succeeds:
  "length acc + 1 + length rest \<le> mx \<Longrightarrow> \<exists>bs. group_loop s c mx prev st q rest acc = Inr bs"
  by (induction rest arbitrary: prev st q acc) auto

lemma group_loop_result:
  "(\<exists>bs. group_loop s c mx prev st q rest acc = Inr bs)
   \<or> group_loop s c mx prev st q rest acc = Inl MB_ERROR_TOO_MANY_BLOCKS"
  by (induction rest arbitrary: prev st q acc) auto

lemma gap_imp_start_less:
  assumes "sorted_wrt block_gap bs" "\<forall>b\<in>set bs. block_meta s c b"
  shows "sorted_wrt (\<lambda>a b. start_address a < start_address b) bs"
proof -
  have "start_address a < start_address b" if "a \<in> set bs" "block_gap a b" for a b
  proof -
    from that(1) assms(2) have "1 \<le> unat (quantity a)" by (simp add: block_meta_def)
    with that(2) show ?thesis by (simp add: block_gap_def block_end_def word_less_nat_alt)
  qed
  then have "\<And>a b. a \<in> set bs \<Longrightarrow> b \<in> set bs \<Longrightarrow> block_gap a b \<Longrightarrow>
      start_address a < start_address b" by blast
  from sorted_wrt_mono_rel [OF this assms(1)] show ?thesis .
qed

text \<open>
  For a readable array of \<open>count\<close> words at a non-null pointer, a valid function code
  and a successful allocation, the function is the grouping loop run on the sorted
  array.
\<close>

lemma mb_addresses_to_blocks_run:
  assumes "a \<noteq> 0" and "length A < 65536" and "mb_fc_is_valid c" and "sort A = first # rest"
  shows "mb_addresses_to_blocks (Pointer a (Some A)) (of_nat (length A)) s c max_blocks True
         = Some (group_loop s c (unat max_blocks) first first 1 rest [])"
proof -
  define cnt :: uint16 where "cnt = of_nat (length A)"
  have u: "unat cnt = length A"
    unfolding cnt_def by (fact unat_of_nat16 [OF assms(2)])
  have "length (sort A) = length A" by simp
  with assms(4) have ne: "length A \<noteq> 0" by auto
  have nz: "cnt \<noteq> 0"
  proof
    assume "cnt = 0"
    then have "unat cnt = 0" by simp
    with u ne show False by simp
  qed
  have srt: "bubble_sort_loop 0 (length A) A = first # rest"
    using bubble_sort_loop_sort [of A] assms(4) by (simp only:)
  have "mb_addresses_to_blocks (Pointer a (Some A)) cnt s c max_blocks True
         = Some (group_loop s c (unat max_blocks) first first 1 rest [])"
    unfolding mb_addresses_to_blocks_def
    using assms(1,3) nz u by (simp add: srt del: bubble_sort_loop.simps)
  then show ?thesis by (simp only: cnt_def)
qed

text \<open>
  C1, amended.  For every address array \<open>A\<close> (at a non-null pointer, with fewer than
  65536 addresses, as the \<open>uint16_t\<close> count allows) and every valid function code,
  with the allocation succeeding: \<open>mb_addresses_to_blocks\<close> succeeds whenever
  \<open>max_blocks\<close> is at least the number of addresses, and its only failure is
  \<open>MB_ERROR_TOO_MANY_BLOCKS\<close>.  Whenever it succeeds, the block list is sorted by
  \<open>start_address\<close>, every block carries the slave id and function code, is not
  marked merged and has at least one address, and the union of the blocks' address
  ranges is the set of \<open>A\<close>.  When \<open>A\<close> has no duplicates, the starts are strictly
  increasing and any two blocks are separated by at least one address that is not
  requested, so the blocks do not overlap and each is a maximal run.
\<close>

theorem mb_addresses_to_blocks_runs:
  assumes "a \<noteq> 0" and "length A < 65536" and "mb_fc_is_valid c"
  shows "(length A \<le> unat max_blocks \<longrightarrow>
            (\<exists>bs. mb_addresses_to_blocks (Pointer a (Some A)) (of_nat (length A)) s c
                     max_blocks True = Some (Inr bs)))
       \<and> ((\<exists>bs. mb_addresses_to_blocks (Pointer a (Some A)) (of_nat (length A)) s c
                     max_blocks True = Some (Inr bs))
          \<or> mb_addresses_to_blocks (Pointer a (Some A)) (of_nat (length A)) s c
                     max_blocks True = Some (Inl MB_ERROR_TOO_MANY_BLOCKS))
       \<and> (\<forall>bs. mb_addresses_to_blocks (Pointer a (Some A)) (of_nat (length A)) s c
                  max_blocks True = Some (Inr bs) \<longrightarrow>
            sorted_wrt (\<lambda>a b. start_address a \<le> start_address b) bs
          \<and> (\<forall>b\<in>set bs. slave_id b = s \<and> function_code b = c \<and> \<not> is_merged b \<and>
                 1 \<le> unat (quantity b) \<and> block_end b \<le> 65536)
          \<and> (\<Union>b\<in>set bs. {unat (start_address b) ..< block_end b}) = unat ` set A
          \<and> (distinct A \<longrightarrow>
                sorted_wrt (\<lambda>a b. start_address a < start_address b) bs
              \<and> sorted_wrt (\<lambda>a b. block_end a < unat (start_address b)) bs))"
proof (cases "A = []")
  case True
  then show ?thesis using assms(1) by (simp add: mb_addresses_to_blocks_def)
next
  case False
  have "length (sort A) = length A" by simp
  with False have "sort A \<noteq> []" by (cases "sort A") auto
  then obtain first rest where fr: "sort A = first # rest" by (cases "sort A") auto
  have run: "mb_addresses_to_blocks (Pointer a (Some A)) (of_nat (length A)) s c max_blocks True
             = Some (group_loop s c (unat max_blocks) first first 1 rest [])"
    by (rule mb_addresses_to_blocks_run [OF assms fr])
  have srt: "sorted (first # rest)"
  proof -
    have "sorted (sort A)" by simp
    then show ?thesis by (simp only: fr)
  qed
  have len: "length rest + 1 = length A"
  proof -
    have "length (sort A) = length A" by simp
    then show ?thesis by (simp add: fr)
  qed
  have sets: "{unat first .. unat first} \<union> unat ` set rest = unat ` set A"
  proof -
    have "set (sort A) = set A" by simp
    then have "set A = insert first (set rest)" by (simp add: fr)
    then show ?thesis by simp
  qed
  show ?thesis
  proof (intro conjI impI allI)
    assume "length A \<le> unat max_blocks"
    then show "\<exists>bs. mb_addresses_to_blocks (Pointer a (Some A)) (of_nat (length A)) s c
                     max_blocks True = Some (Inr bs)"
      using group_loop_succeeds [of "[]" rest "unat max_blocks" s c first first 1] len run by simp
  next
    show "(\<exists>bs. mb_addresses_to_blocks (Pointer a (Some A)) (of_nat (length A)) s c
                     max_blocks True = Some (Inr bs))
          \<or> mb_addresses_to_blocks (Pointer a (Some A)) (of_nat (length A)) s c
                     max_blocks True = Some (Inl MB_ERROR_TOO_MANY_BLOCKS)"
      using group_loop_result [of s c "unat max_blocks" first first 1 rest "[]"] run by simp
  next
    fix bs
    assume "mb_addresses_to_blocks (Pointer a (Some A)) (of_nat (length A)) s c
                  max_blocks True = Some (Inr bs)"
    with run have r: "group_loop s c (unat max_blocks) first first 1 rest [] = Inr bs" by simp
    have p: "sorted_wrt (\<lambda>a b. start_address a \<le> start_address b) bs \<and>
         (\<forall>b\<in>set bs. block_meta s c b) \<and>
         (\<Union>b\<in>set bs. block_range b) =
           (\<Union>b\<in>set []. block_range b) \<union> {unat first .. unat first} \<union> unat ` set rest"
      using srt len assms(2) by (intro group_loop_sorted [OF r]) simp_all
    then have u: "(\<Union>b\<in>set bs. block_range b) = unat ` set A" using sets by simp
    from p show "sorted_wrt (\<lambda>a b. start_address a \<le> start_address b) bs" by simp
    from p show "\<forall>b\<in>set bs. slave_id b = s \<and> function_code b = c \<and> \<not> is_merged b \<and>
                 1 \<le> unat (quantity b) \<and> block_end b \<le> 65536"
      by (simp add: block_meta_def)
    from u show "(\<Union>b\<in>set bs. {unat (start_address b) ..< block_end b}) = unat ` set A"
      by (simp add: block_range_def)
    {
      assume d: "distinct A"
      have strict: "sorted_wrt (<) (first # rest)"
      proof -
        have "sorted (sort A)" "distinct (sort A)" using d by simp_all
        then have "sorted_wrt (<) (sort A)" by (simp add: strict_sorted_iff)
        then show ?thesis by (simp only: fr)
      qed
      have q: "sorted_wrt block_gap bs \<and> (\<forall>b\<in>set bs. block_meta s c b) \<and>
           (\<Union>b\<in>set bs. block_range b) =
             (\<Union>b\<in>set []. block_range b) \<union> {unat first .. unat first} \<union> unat ` set rest"
        using strict len assms(2) by (intro group_loop_props [OF r]) simp_all
      then have q1: "sorted_wrt block_gap bs" and q2: "\<forall>b\<in>set bs. block_meta s c b"
        by simp_all
      from gap_imp_start_less [OF q1 q2]
      show "sorted_wrt (\<lambda>a b. start_address a < start_address b) bs" .
      from q1 show "sorted_wrt (\<lambda>a b. block_end a < unat (start_address b)) bs"
        by (simp add: block_gap_def [abs_def])
    }
  qed
qed

text \<open>
  C1, as the claim states it, fails for a list with a duplicate: the address list
  \<open>[5, 5]\<close> gives two blocks, both at address 5 with quantity 1.  The duplicate does
  not collapse, and the two blocks overlap.  It also fails where the block array is
  too small: the six addresses 117, 100, 102, 115, 116, 101 fold into two blocks, and
  with room for one block the call returns \<open>MB_ERROR_TOO_MANY_BLOCKS\<close>.
\<close>

lemma mb_addresses_to_blocks_duplicates:
  "mb_addresses_to_blocks (Pointer 4096 (Some [5, 5])) 2 1 3 2 True
   = Some (Inr [\<lparr>slave_id = 1, function_code = 3, start_address = 5, quantity = 1,
                 is_merged = False\<rparr>,
                \<lparr>slave_id = 1, function_code = 3, start_address = 5, quantity = 1,
                 is_merged = False\<rparr>])"
  by code_simp

lemma mb_addresses_to_blocks_too_many:
  "mb_addresses_to_blocks (Pointer 4096 (Some [117, 100, 102, 115, 116, 101])) 6 1 3 1 True
   = Some (Inl MB_ERROR_TOO_MANY_BLOCKS)"
  by code_simp

theorem mb_addresses_to_blocks_duplicates_counterexample:
  "mb_fc_is_valid 3
   \<and> mb_addresses_to_blocks (Pointer 4096 (Some [5, 5])) 2 1 3 2 True
   = Some (Inr [\<lparr>slave_id = 1, function_code = 3, start_address = 5, quantity = 1,
                 is_merged = False\<rparr>,
                \<lparr>slave_id = 1, function_code = 3, start_address = 5, quantity = 1,
                 is_merged = False\<rparr>])
   \<and> \<not> sorted_wrt (\<lambda>a b. block_end a \<le> unat (start_address b))
         [\<lparr>slave_id = 1, function_code = 3, start_address = 5, quantity = 1,
           is_merged = False\<rparr>,
          \<lparr>slave_id = 1, function_code = 3, start_address = 5, quantity = 1,
           is_merged = False\<rparr>]
   \<and> mb_addresses_to_blocks (Pointer 4096 (Some [117, 100, 102, 115, 116, 101])) 6 1 3 1 True
       = Some (Inl MB_ERROR_TOO_MANY_BLOCKS)"
  using mb_addresses_to_blocks_duplicates mb_addresses_to_blocks_too_many
  by (simp add: block_end_def mb_fc_is_valid_def mb_fc_get_policy_def fc_policy_table_def)

text \<open>
  The six addresses 117, 100, 102, 115, 116, 101 fold into the blocks (100, 3) and
  (115, 3).
\<close>

lemma mb_addresses_to_blocks_example:
  "mb_addresses_to_blocks (Pointer 4096 (Some [117, 100, 102, 115, 116, 101])) 6 1 3 6 True
   = Some (Inr [\<lparr>slave_id = 1, function_code = 3, start_address = 100, quantity = 3,
                 is_merged = False\<rparr>,
                \<lparr>slave_id = 1, function_code = 3, start_address = 115, quantity = 3,
                 is_merged = False\<rparr>])"
  by code_simp

theorem mb_addresses_to_blocks_runs_witness:
  "(4096 :: nat) \<noteq> 0
   \<and> distinct [117, 100, 102, 115, 116, 101 :: uint16]
   \<and> length [117, 100, 102, 115, 116, 101 :: uint16] < 65536
   \<and> mb_fc_is_valid 3
   \<and> length [117, 100, 102, 115, 116, 101 :: uint16] \<le> unat (6 :: uint16)
   \<and> mb_addresses_to_blocks (Pointer 4096 (Some [117, 100, 102, 115, 116, 101])) 6 1 3 6 True
       = Some (Inr [\<lparr>slave_id = 1, function_code = 3, start_address = 100, quantity = 3,
                     is_merged = False\<rparr>,
                    \<lparr>slave_id = 1, function_code = 3, start_address = 115, quantity = 3,
                     is_merged = False\<rparr>])
   \<and> (\<Union>b\<in>set [\<lparr>slave_id = 1, function_code = 3, start_address = 100, quantity = 3,
                     is_merged = False\<rparr>,
                    \<lparr>slave_id = 1, function_code = 3, start_address = 115, quantity = 3,
                     is_merged = False\<rparr>].
         {unat (start_address b) ..< block_end b})
       = unat ` set [117, 100, 102, 115, 116, 101 :: uint16]
   \<and> sorted_wrt (\<lambda>a b. block_end a < unat (start_address b))
         [\<lparr>slave_id = 1, function_code = 3, start_address = 100, quantity = 3,
           is_merged = False\<rparr>,
          \<lparr>slave_id = 1, function_code = 3, start_address = 115, quantity = 3,
           is_merged = False\<rparr>]
   \<and> mb_addresses_to_blocks (Pointer 4096 (Some [117, 100, 102, 115, 116, 101])) 6 1 3 1 True
       = Some (Inl MB_ERROR_TOO_MANY_BLOCKS)"
proof -
  have a: "(4096 :: nat) \<noteq> 0" by simp
  have d: "distinct [117, 100, 102, 115, 116, 101 :: uint16]" by simp
  have l: "length [117, 100, 102, 115, 116, 101 :: uint16] < 65536" by simp
  have v: "mb_fc_is_valid 3"
    by (simp add: mb_fc_is_valid_def mb_fc_get_policy_def fc_policy_table_def)
  have m: "length [117, 100, 102, 115, 116, 101 :: uint16] \<le> unat (6 :: uint16)" by simp
  have n: "(of_nat (length [117, 100, 102, 115, 116, 101 :: uint16]) :: uint16) = 6" by simp
  note t = mb_addresses_to_blocks_runs [OF a l v, of 6 1, unfolded n]
  from t mb_addresses_to_blocks_example d
  have "(\<Union>b\<in>set [\<lparr>slave_id = 1, function_code = 3, start_address = 100, quantity = 3,
                     is_merged = False\<rparr>,
                    \<lparr>slave_id = 1, function_code = 3, start_address = 115, quantity = 3,
                     is_merged = False\<rparr>].
         {unat (start_address b) ..< block_end b})
       = unat ` set [117, 100, 102, 115, 116, 101 :: uint16]
     \<and> sorted_wrt (\<lambda>a b. block_end a < unat (start_address b))
         [\<lparr>slave_id = 1, function_code = 3, start_address = 100, quantity = 3,
           is_merged = False\<rparr>,
          \<lparr>slave_id = 1, function_code = 3, start_address = 115, quantity = 3,
           is_merged = False\<rparr>]"
    by blast
  with a d l v m mb_addresses_to_blocks_example mb_addresses_to_blocks_too_many
  show ?thesis by blast
qed

section \<open>Properties of the optimized read\<close>

subsection \<open>The plans of the optimizer\<close>

text \<open>
  What \<open>mb_addresses_to_blocks\<close> does with a pointer made from an integer: it
  rejects the null pointer, returns no block for a count of 0, rejects an invalid
  function code and a failed allocation, and otherwise reads through the pointer.
\<close>

lemma mb_addresses_to_blocks_int_to_pointer:
  "mb_addresses_to_blocks (int_to_pointer n) cnt slave c max_blocks alloc_ok =
     (if n = 0 then Some (Inl MB_ERROR_INVALID_PARAM)
      else if cnt = 0 then Some (Inr [])
      else if \<not> mb_fc_is_valid c then Some (Inl MB_ERROR_INVALID_FC)
      else if \<not> alloc_ok then Some (Inl MB_ERROR_OUT_OF_MEMORY)
      else None)"
  by (simp add: mb_addresses_to_blocks_def int_to_pointer_def unat_0_iff)

lemma mb_merge_block_array_Nil: "mb_merge_block_array [] cost_params = Inr []"
  by (simp add: mb_merge_block_array_def mb_block_sort_by_address_def)

lemma mb_ffd_pack_Nil: "mb_ffd_pack [] max_pdu_chars max_pdus alloc_ok = Inr []"
  by (simp add: mb_ffd_pack_def)

lemma ucast8_16_eq_0: "(ucast (x :: uint8) :: uint16) = 0 \<longleftrightarrow> x = 0"
  by transfer (simp add: take_bit_eq_0_iff)

text \<open>
  Every outcome of \<open>mb_optimize_request\<close>.  With the arguments of
  \<open>mb_addresses_to_blocks\<close> in the order of the call, the slave id decides whether
  the address pointer is null, the function code of the request is the count, and the
  address count is the function code that is validated.  A request for function code
  0 passes with no block; every other request that gets as far as the copy of the
  addresses reads through the pointer made from the slave id.
\<close>

lemma mb_optimize_request_result:
  "mb_optimize_request request cfg max_plans heap =
     (if req_address_count request = 0 then Some (Inr [])
      else if max_plans = 0 then Some (Inl MB_ERROR_INVALID_PARAM)
      else if \<not> heap 0 then Some (Inl MB_ERROR_NO_MEMORY)
      else if req_slave_id request = 0 then Some (Inl MB_ERROR_INVALID_PARAM)
      else if req_function_code request = 0
      then (if heap 2 then Some (Inr []) else Some (Inl MB_ERROR_NO_MEMORY))
      else if \<not> mb_fc_is_valid (ucast (req_address_count request))
      then Some (Inl MB_ERROR_INVALID_FC)
      else if \<not> heap 1 then Some (Inl MB_ERROR_OUT_OF_MEMORY)
      else None)"
  by (simp add: mb_optimize_request_def mb_addresses_to_blocks_int_to_pointer
      mb_merge_block_array_Nil mb_ffd_pack_Nil ucast8_16_eq_0 Let_def)


text \<open>
  The runs of \<open>mb_master_read_optimized\<close> that C leaves undefined are those in which
  the optimizer reads through the pointer made from the slave id: the buffer is large
  enough, the request has addresses, a slave id other than 0 and a function code other
  than 0, the address count is the number of a function code, and both allocations
  succeed.
\<close>

lemma mb_master_read_optimized_undefined:
  "mb_master_read_optimized master request buffer_size heap temp0 = None \<longleftrightarrow>
     (\<not> buffer_size < req_address_count request
      \<and> req_address_count request \<noteq> 0 \<and> heap 0
      \<and> req_slave_id request \<noteq> 0 \<and> req_function_code request \<noteq> 0
      \<and> mb_fc_is_valid (ucast (req_address_count request)) \<and> heap 1)"
  by (simp add: mb_master_read_optimized_def mb_optimize_request_result Let_def)

subsection \<open>The words written to the caller's buffer\<close>



text \<open>
  The plan loop entered with one plan for the six registers 100 to 105 and a buffer of
  two words: the six registers of the response are cut to two.
\<close>

lemma execute_plans_clamped_example:
  "map_option (\<lambda>(r, st). (r, rs_data st))
     (execute_plans
        [\<lparr>plan_slave_id = 1, plan_function_code = 3, plan_start_address = 100,
          plan_quantity = 6\<rparr>] 2
        \<lparr>rs_master = scripted_master MB_MODE_TCP
           [[0, 0, 0, 0, 0, 15, 1, 3, 12, 0, 1, 0, 2, 0, 3, 0, 4, 0, 5, 0, 6]],
         rs_data = [], rs_temp = replicate 256 0\<rparr>)
   = Some (Inr (), [1, 2])"
  by code_simp




subsection \<open>The statistics of a successful read\<close>

text \<open>
  The plan loop on its own: a plan that completes adds 2 to \<open>total_requests\<close> (the
  statement \<open>master->stats.total_requests++\<close> stands twice in a row at the end of the
  loop body) and appends its words to the data; a loop that completes has added twice
  the number of its plans.
\<close>

lemma count_request_stats:
  "m_stats (count_request m) = (m_stats m)\<lparr>total_requests := total_requests (m_stats m) + 1\<rparr>"
  "m_stats (set_context m ctx) = m_stats m"
  by (simp_all add: count_request_def set_context_def)

lemma execute_plan_success:
  assumes "execute_plan plan bs st = Some (Inr u, st')"
  shows "total_requests (m_stats (rs_master st')) = total_requests (m_stats (rs_master st)) + 2"
    and "optimized_requests (m_stats (rs_master st')) = optimized_requests (m_stats (rs_master st))"
    and "blocks_merged (m_stats (rs_master st')) = blocks_merged (m_stats (rs_master st))"
    and "\<exists>chunk. rs_data st' = rs_data st @ chunk \<and>
           length chunk = min (unat (plan_quantity plan)) (unat bs - length (rs_data st))"
  using assms
  by (auto simp: execute_plan_def Let_def count_request_stats
      split: sum.splits option.splits prod.splits if_splits)

lemma execute_plans_success:
  "execute_plans plans bs st = Some (Inr u, st') \<Longrightarrow>
   total_requests (m_stats (rs_master st'))
     = total_requests (m_stats (rs_master st)) + 2 * of_nat (length plans)
   \<and> optimized_requests (m_stats (rs_master st')) = optimized_requests (m_stats (rs_master st))
   \<and> blocks_merged (m_stats (rs_master st')) = blocks_merged (m_stats (rs_master st))"
proof (induction plans arbitrary: st)
  case Nil
  then show ?case by simp
next
  case (Cons plan plans)
  from Cons.prems obtain r1 st1 where e: "execute_plan plan bs st = Some (r1, st1)"
    by (auto split: option.splits)
  with Cons.prems obtain u1 where r1: "r1 = Inr u1"
    by (cases r1) auto
  with e Cons.prems have rest: "execute_plans plans bs st1 = Some (Inr u, st')" by simp
  from e r1 have e': "execute_plan plan bs st = Some (Inr u1, st1)" by simp
  from Cons.IH [OF rest] execute_plan_success(1-3) [OF e']
  show ?case by (simp add: algebra_simps)
qed

text \<open>
  The plan loop entered with the two plans (100, 2) and (400, 1) and a buffer of three
  words: both plans complete, the three values arrive in plan order, and
  \<open>total_requests\<close> is 4 after the two plans.
\<close>

lemma execute_plans_counts_example:
  "map_option (\<lambda>(r, st). (r, m_stats (rs_master st), rs_data st))
     (execute_plans
        [\<lparr>plan_slave_id = 1, plan_function_code = 3, plan_start_address = 100,
          plan_quantity = 2\<rparr>,
         \<lparr>plan_slave_id = 1, plan_function_code = 3, plan_start_address = 400,
          plan_quantity = 1\<rparr>] 3
        \<lparr>rs_master = scripted_master MB_MODE_TCP
           [[0, 0, 0, 0, 0, 7, 1, 3, 4, 0, 10, 0, 11], [0, 0, 0, 0, 0, 5, 1, 3, 2, 0, 12]],
         rs_data = [], rs_temp = replicate 256 0\<rparr>)
   = Some (Inr (),
           \<lparr>total_requests = 4, optimized_requests = 0, rounds_saved = 0, blocks_merged = 0,
            total_chars_sent = 24, total_chars_recv = 24\<rparr>,
           [10, 11, 12])"
  by code_simp




subsection \<open>Runs of the plan loop that stay inside the arrays\<close>

text \<open>
  The plan loop has a result, so it stays inside \<open>temp_buffer\<close> and the response
  arrays, whenever \<open>temp_buffer\<close> has its 256 words, the transport keeps the contract
  of \<open>recv\<close> and no plan asks for more than 256 units.
\<close>

lemma store_bytes_length: "length (store_bytes bytes dest) = length dest"
  by (simp add: store_bytes_def)

lemma parse_read_bits_defined:
  assumes "length dest = 256"
  shows "\<exists>r. parse_read_bits_response pdu q dest = Some r \<and>
           (\<forall>t. r = Inr t \<longrightarrow> length t = 256)"
  using assms unat8_lt [of "pdu ! 0"]
  by (auto simp: parse_read_bits_response_def Let_def store_bytes_length)

lemma parse_read_registers_defined:
  assumes "length dest = 256" and "unat q \<le> 256"
  shows "\<exists>r. parse_read_registers_response pdu q dest = Some r \<and>
           (\<forall>t. r = Inr t \<longrightarrow> length t = 256)"
proof -
  have "unat q * 2 < 65536" using assms(2) by simp
  then have "unat (of_nat (unat q * 2) :: uint16) = unat q * 2" by (rule unat_of_nat16)
  then show ?thesis
    using assms by (auto simp: parse_read_registers_response_def Let_def)
qed

lemma mb_parse_read_response_defined:
  assumes "length dest = 256" and "unat q \<le> 256"
  shows "\<exists>r. mb_parse_read_response c pdu q dest = Some r \<and>
           (\<forall>t. r = Inr t \<longrightarrow> length t = 256)"
  using parse_read_bits_defined [OF assms(1), of pdu q]
    parse_read_registers_defined [OF assms, of pdu]
  by (auto simp: mb_parse_read_response_def)

lemma recv_within_bounds_simps:
  "recv_within_bounds (count_request m) = recv_within_bounds m"
  "recv_within_bounds (set_context m ctx) = recv_within_bounds m"
  "recv_within_bounds (m\<lparr>m_stats := s\<rparr>) = recv_within_bounds m"
  by (simp_all add: recv_within_bounds_def count_request_def set_context_def)

lemma execute_plan_defined:
  assumes "length (rs_temp st) = 256" and "unat (plan_quantity plan) \<le> 256"
    and "recv_within_bounds (rs_master st)"
  shows "\<exists>r st'. execute_plan plan bs st = Some (r, st') \<and> length (rs_temp st') = 256 \<and>
           recv_within_bounds (rs_master st')"
proof -
  let ?m = "rs_master st"
  show ?thesis
  proof (cases "mb_build_frame (plan_slave_id plan) (plan_function_code plan)
      [ucast (drop_bit 8 (plan_start_address plan) AND 0xFF),
       ucast (plan_start_address plan AND 0xFF),
       ucast (drop_bit 8 (plan_quantity plan) AND 0xFF),
       ucast (plan_quantity plan AND 0xFF)] (cfg_mode (m_config ?m)) 260")
    case (Inl e)
    then show ?thesis using assms by (simp add: execute_plan_def Let_def recv_within_bounds_simps)
  next
    case (Inr frame)
    show ?thesis
    proof (cases "tr_send (cfg_transport (m_config ?m))")
      case None
      with Inr show ?thesis using assms by (simp add: execute_plan_def Let_def)
    next
      case (Some send)
      obtain sent ctx1 where s: "send (tr_context (cfg_transport (m_config ?m))) frame = (sent, ctx1)"
        by (cases "send (tr_context (cfg_transport (m_config ?m))) frame")
      let ?m1 = "set_context ?m ctx1"
      have rb1: "recv_within_bounds ?m1" using assms(3) by (simp add: recv_within_bounds_simps)
      have tr1: "tr_recv (cfg_transport (m_config ?m1)) = tr_recv (cfg_transport (m_config ?m))"
        by (simp add: set_context_def)
      show ?thesis
      proof (cases "sent < 0")
        case True
        with Inr Some s rb1 assms(1) show ?thesis
          by (simp add: execute_plan_def Let_def recv_within_bounds_simps)
      next
        case False
        show ?thesis
        proof (cases "tr_recv (cfg_transport (m_config ?m1))")
          case None
          with Inr Some s False rb1 assms(1) show ?thesis
            by (simp add: execute_plan_def Let_def)
        next
          case (Some recv)
          note rc = Some
          obtain rr response ctx2 where r: "recv ctx1 260 = ((rr, response), ctx2)"
            by (cases "recv ctx1 260") auto
          have "\<forall>ctx max_len. length (snd (fst (recv ctx max_len))) \<le> max_len"
            using rb1 rc by (simp add: recv_within_bounds_def)
          then have "length (snd (fst (recv ctx1 260))) \<le> 260" by blast
          with r have rl: "length response \<le> 260" by simp
          let ?m2 = "set_context ?m1 ctx2"
          have rb2: "recv_within_bounds ?m2" "recv_within_bounds (count_request ?m2)"
            using rb1 by (simp_all add: recv_within_bounds_simps)
          note sd = \<open>tr_send (cfg_transport (m_config ?m)) = Some send\<close>
          show ?thesis
          proof (cases "rr < 0 \<or> length response = 0")
            case True
            with Inr sd s False rc r rl rb2 assms(1) show ?thesis
              by (auto simp: execute_plan_def Let_def recv_within_bounds_simps)
          next
            case ok: False
            show ?thesis
            proof (cases "mb_parse_frame response (cfg_mode (m_config ?m2))")
              case (Inl e)
              with Inr sd s False rc r rl rb2 assms(1) ok show ?thesis
                by (auto simp: execute_plan_def Let_def recv_within_bounds_simps)
            next
              case pf: (Inr parsed)
              obtain rs rfc pdu where parsed: "parsed = (rs, rfc, pdu)" by (cases parsed) auto
              show ?thesis
              proof (cases "rs \<noteq> plan_slave_id plan")
                case True
                with Inr sd s False rc r rl rb2 assms(1) ok pf parsed show ?thesis
                  by (auto simp: execute_plan_def Let_def recv_within_bounds_simps)
              next
                case same: False
                from mb_parse_read_response_defined [OF assms(1,2), of rfc pdu]
                obtain rp where rp: "mb_parse_read_response rfc pdu (plan_quantity plan) (rs_temp st) = Some rp"
                  and rpl: "\<forall>t. rp = Inr t \<longrightarrow> length t = 256" by blast
                show ?thesis
                proof (cases rp)
                  case (Inl e)
                  with Inr sd s False rc r rl rb2 assms(1) ok pf parsed same rp show ?thesis
                    by (auto simp: execute_plan_def Let_def recv_within_bounds_simps)
                next
                  case (Inr temp)
                  with rpl have tl: "length temp = 256" by simp
                  have n: "\<not> min (unat (plan_quantity plan)) (unat bs - length (rs_data st)) > length temp"
                    using tl assms(2) by simp
                  from \<open>mb_build_frame _ _ _ _ _ = Inr frame\<close> sd s False rc r rl rb2 ok pf parsed same rp Inr tl n
                  show ?thesis
                    by (auto simp: execute_plan_def Let_def recv_within_bounds_simps)
                qed
              qed
            qed
          qed
        qed
      qed
    qed
  qed
qed


lemma execute_plans_defined:
  "length (rs_temp st) = 256 \<Longrightarrow> \<forall>p\<in>set plans. unat (plan_quantity p) \<le> 256 \<Longrightarrow>
   recv_within_bounds (rs_master st) \<Longrightarrow> \<exists>r st'. execute_plans plans bs st = Some (r, st')"
proof (induction plans arbitrary: st)
  case Nil
  then show ?case by simp
next
  case (Cons plan plans)
  from Cons.prems(2) have q: "unat (plan_quantity plan) \<le> 256"
    and qs: "\<forall>p\<in>set plans. unat (plan_quantity p) \<le> 256" by simp_all
  from execute_plan_defined [OF Cons.prems(1) q Cons.prems(3), of bs]
  obtain r1 st1 where e: "execute_plan plan bs st = Some (r1, st1)"
    and t: "length (rs_temp st1) = 256" and b: "recv_within_bounds (rs_master st1)"
    by blast
  show ?case
  proof (cases r1)
    case (Inl err)
    with e show ?thesis by simp
  next
    case (Inr u)
    with e Cons.IH [OF t qs b] show ?thesis by simp
  qed
qed

end
